theory Spec2Isabelle
  imports Main
begin

section \<open>JavaScript values\<close>

text \<open>
  The service of \<^verbatim>\<open>src/api/services/FootprintService.js\<close> handles loosely typed
  values: criteria, ids, values to store and the documents the store returns.  They are
  JSON-like values here.  Numbers are integers, ids are numbers or strings, and an object
  is the list of its own fields in insertion order; a document returned by the store is
  the object of its fields.
\<close>

datatype jsval =
    JUndefined
  | JNull
  | JBool bool
  | JNum int
  | JStr string
  | JArr "jsval list"
  | JObj "(string \<times> jsval) list"

text \<open>What \<^verbatim>\<open>if (x)\<close> and \<^verbatim>\<open>!x\<close> test: every array and object is truthy, also the empty ones.\<close>

fun truthy :: "jsval \<Rightarrow> bool" where
  "truthy JUndefined = False"
| "truthy JNull = False"
| "truthy (JBool b) = b"
| "truthy (JNum n) = (n \<noteq> 0)"
| "truthy (JStr s) = (s \<noteq> [])"
| "truthy (JArr xs) = True"
| "truthy (JObj kvs) = True"

text \<open>
  \<^verbatim>\<open>_.isPlainObject\<close> and \<^verbatim>\<open>_.isArray\<close>.  The service applies the first to
  criteria and ids only, never to a document the store returned.
\<close>

fun isPlainObject :: "jsval \<Rightarrow> bool" where
  "isPlainObject (JObj kvs) = True"
| "isPlainObject v = False"

fun isArray :: "jsval \<Rightarrow> bool" where
  "isArray (JArr xs) = True"
| "isArray v = False"

text \<open>
  \<^verbatim>\<open>v[k]\<close> on a truthy value: the field of an object, \<^verbatim>\<open>undefined\<close> when there is none.
  The built-in members of arrays and strings (\<^verbatim>\<open>length\<close>, indices, methods) are not
  modelled: a store replies to \<^verbatim>\<open>findOne\<close> with a document or \<^verbatim>\<open>null\<close>, so the
  records whose reference field the service reads are objects.  The fields read are
  \<^verbatim>\<open>_id\<close> and reference fields, which are schema paths: a document defines them
  itself, so no member it inherits shows through.
\<close>

fun get_prop :: "jsval \<Rightarrow> string \<Rightarrow> jsval" where
  "get_prop (JObj kvs) k = (case map_of kvs k of Some v \<Rightarrow> v | None \<Rightarrow> JUndefined)"
| "get_prop v k = JUndefined"

fun set_field :: "string \<Rightarrow> jsval \<Rightarrow> (string \<times> jsval) list \<Rightarrow> (string \<times> jsval) list" where
  "set_field k v [] = [(k, v)]"
| "set_field k v ((k', v') # kvs) =
     (if k' = k then (k, v) # kvs else (k', v') # set_field k v kvs)"

datatype error =
    No_model_found
  | No_parentId_provided
  | No_such_reference_exist
  | No_parent_record_found
  | No_id_for_child_record
  | TypeError
  | StoreError string

text \<open>
  \<^verbatim>\<open>record[k] = v\<close>.  The file is in strict mode, so the assignment throws on a primitive.
  On an array the assignment itself is allowed, but each use in the source is followed by
  \<^verbatim>\<open>record.save()\<close> with no store call in between, which throws the same TypeError, as
  an array has no \<^verbatim>\<open>save\<close>.
\<close>

fun set_prop :: "jsval \<Rightarrow> string \<Rightarrow> jsval \<Rightarrow> error + jsval" where
  "set_prop (JObj kvs) k v = Inr (JObj (set_field k v kvs))"
| "set_prop r k v = Inl TypeError"

text \<open>\<^verbatim>\<open>arr.push(v)\<close>: a TypeError unless the receiver is an array.\<close>

fun push :: "jsval \<Rightarrow> jsval \<Rightarrow> error + jsval" where
  "push (JArr xs) v = Inr (JArr (xs @ [v]))"
| "push a v = Inl TypeError"

text \<open>The enumerable keys of a value with their values, as \<^verbatim>\<open>_.extend\<close> copies them.\<close>

fun dec :: "nat \<Rightarrow> string" where
  "dec n = (if n < 10 then [''0123456789'' ! n] else dec (n div 10) @ [''0123456789'' ! (n mod 10)])"

fun entries :: "jsval \<Rightarrow> (string \<times> jsval) list" where
  "entries (JObj kvs) = kvs"
| "entries (JArr xs) = zip (map dec [0..<length xs]) xs"
| "entries (JStr s) = zip (map dec [0..<length s]) (map (\<lambda>c. JStr [c]) s)"
| "entries v = []"

text \<open>\<^verbatim>\<open>_.extend(query, criteria)\<close>: the fields of the source win on a key collision.\<close>

fun extend_js :: "jsval \<Rightarrow> jsval \<Rightarrow> jsval" where
  "extend_js (JObj kvs) src = JObj (fold (\<lambda>(k, v) acc. set_field k v acc) (entries src) kvs)"
| "extend_js q src = q"

text \<open>\<^verbatim>\<open>criteria || {}\<close>.\<close>

definition or_empty :: "jsval \<Rightarrow> jsval" where
  "or_empty c = (if truthy c then c else JObj [])"

text \<open>
  \<^verbatim>\<open>_.difference(array, values)\<close> compares with SameValueZero: primitives by value,
  objects and arrays by reference.  The two arguments come from two different replies of
  the store, so an object of one is never the same reference as an object of the other.
\<close>

fun same_value_zero :: "jsval \<Rightarrow> jsval \<Rightarrow> bool" where
  "same_value_zero (JArr xs) y = False"
| "same_value_zero (JObj kvs) y = False"
| "same_value_zero x y = (x = y)"

definition difference :: "jsval list \<Rightarrow> jsval list \<Rightarrow> jsval list" where
  "difference xs ids = filter (\<lambda>x. \<not> list_ex (same_value_zero x) ids) xs"

text \<open>
  \<^verbatim>\<open>list.map(item => item._id)\<close>: a TypeError when the receiver is not an array (a
  document has no \<^verbatim>\<open>map\<close>) or an item is \<^verbatim>\<open>null\<close> or \<^verbatim>\<open>undefined\<close>.
\<close>

fun map_ids :: "jsval \<Rightarrow> error + jsval list" where
  "map_ids (JArr items) =
     (if list_ex (\<lambda>i. i = JNull \<or> i = JUndefined) items then Inl TypeError
      else Inr (map (\<lambda>item. get_prop item ''_id'') items))"
| "map_ids v = Inl TypeError"

section \<open>Models, schema paths and the service\<close>

text \<open>
  A schema path as the service reads it: \<^verbatim>\<open>instance\<close> and \<^verbatim>\<open>options.ref\<close>
  (\<^verbatim>\<open>undefined\<close> when the path has no such option).
\<close>

record path_def =
  path_instance :: string
  options_ref :: jsval

text \<open>A model: its name and \<^verbatim>\<open>schema.paths\<close>, absent on an object that is no model.\<close>

record model =
  mname :: string
  schema_paths :: "(string \<times> path_def) list option"

text \<open>
  The options argument of an operation, and the value of a configuration key
  \<^verbatim>\<open>footprints.models.options\<close>: \<^verbatim>\<open>findOne\<close> holds when the field is exactly
  \<^verbatim>\<open>true\<close>; \<^verbatim>\<open>defaultLimit\<close> is a number or absent.
\<close>

record options =
  findOne :: bool
  defaultLimit :: "int option"

text \<open>
  The registries of models and \<^verbatim>\<open>schema.paths\<close> are plain JavaScript objects, which
  the source indexes with \<^verbatim>\<open>obj[name]\<close>.  Such a lookup also finds the members every
  object inherits from \<^verbatim>\<open>Object.prototype\<close>: functions, and for \<^verbatim>\<open>__proto__\<close> the
  prototype object itself, all truthy.
\<close>

definition object_prototype_members :: "string list" where
  "object_prototype_members =
     [''constructor'', ''__defineGetter__'', ''__defineSetter__'', ''hasOwnProperty'',
      ''__lookupGetter__'', ''__lookupSetter__'', ''isPrototypeOf'', ''propertyIsEnumerable'',
      ''toString'', ''valueOf'', ''__proto__'', ''toLocaleString'']"

text \<open>
  What a lookup in a registry gives when it is truthy: a registered model, or the member
  of that name inherited from \<^verbatim>\<open>Object.prototype\<close>.
\<close>

datatype handle = Registered model | Inherited string

definition registry_get :: "(string \<times> model) list \<Rightarrow> string \<Rightarrow> handle option" where
  "registry_get reg name =
     (case map_of reg name of
        Some m \<Rightarrow> Some (Registered m)
      | None \<Rightarrow> (if name \<in> set object_prototype_members then Some (Inherited name) else None))"

text \<open>
  The service as its operations see it (\<^verbatim>\<open>this\<close>): the two model registries
  \<^verbatim>\<open>this.app.orm\<close> and \<^verbatim>\<open>this.app.packs.mongoose.orm\<close>; the options the
  application configures under \<^verbatim>\<open>footprints.models.options\<close>, which live in
  \<^verbatim>\<open>this.app.config\<close>; and the value of
  \<^verbatim>\<open>_.get(this.config, 'footprints.models.options')\<close>, which is what \<^verbatim>\<open>find\<close> and
  \<^verbatim>\<open>update\<close> read.  The base class of the service (the package trails-service) is not
  part of the repository; it gives a service the members \<^verbatim>\<open>app\<close>, \<^verbatim>\<open>log\<close> and
  \<^verbatim>\<open>__\<close> and no \<^verbatim>\<open>config\<close>, so on a running application the last value is
  \<^verbatim>\<open>undefined\<close> (\<open>None\<close>), whatever the application configures.
\<close>

record service =
  orm :: "(string \<times> model) list"
  packs_orm :: "(string \<times> model) list"
  app_config_options :: "options option"
  this_config_options :: "options option"

text \<open>
  \<^verbatim>\<open>_getModel\<close>: \<^verbatim>\<open>this.app.orm[modelName] || this.app.packs.mongoose.orm[modelName]\<close>.
\<close>

definition getModel :: "service \<Rightarrow> string \<Rightarrow> handle option" where
  "getModel T name =
     (case registry_get (orm T) name of
        Some h \<Rightarrow> Some h
      | None \<Rightarrow> registry_get (packs_orm T) name)"

text \<open>
  \<^verbatim>\<open>_getReferenceDefinition\<close>, on a registered model.  The field name is a string
  here, so the test \<^verbatim>\<open>_.isString(field)\<close> always passes.  For a name that is no path
  but a member inherited from \<^verbatim>\<open>Object.prototype\<close>, \<^verbatim>\<open>model.schema.paths[field]\<close>
  is that member: it has no \<^verbatim>\<open>instance\<close> and no \<^verbatim>\<open>options.ref\<close>.
\<close>

definition inherited_path :: path_def where
  "inherited_path = \<lparr>path_instance = [], options_ref = JUndefined\<rparr>"

definition getReferenceDefinition :: "model \<Rightarrow> string \<Rightarrow> path_def option" where
  "getReferenceDefinition m field =
     (case schema_paths m of
        None \<Rightarrow> None
      | Some paths \<Rightarrow>
          (case map_of paths field of
             Some d \<Rightarrow> Some d
           | None \<Rightarrow>
               (if field \<in> set object_prototype_members then Some inherited_path else None)))"

text \<open>
  \<^verbatim>\<open>_getReferenceModelName\<close>: the name of the child model, \<open>None\<close> where the source
  returns \<^verbatim>\<open>false\<close>.
\<close>

definition getReferenceModelName :: "model \<Rightarrow> string \<Rightarrow> string option" where
  "getReferenceModelName m reference =
     (case getReferenceDefinition m reference of
        None \<Rightarrow> None
      | Some ref \<Rightarrow> (case options_ref ref of JStr s \<Rightarrow> Some s | _ \<Rightarrow> None))"

text \<open>
  \<^verbatim>\<open>_.defaultsDeep({ }, options, _.get(this.config, 'footprints.models.options'))\<close>,
  field \<^verbatim>\<open>defaultLimit\<close>: the caller's limit, and when the caller gives none the one
  found under \<^verbatim>\<open>this.config\<close>.  The options of \<^verbatim>\<open>this.app.config\<close> are not read.
\<close>

definition modelOptions_defaultLimit :: "service \<Rightarrow> options option \<Rightarrow> int option" where
  "modelOptions_defaultLimit T opts =
     (case (case opts of None \<Rightarrow> None | Some o1 \<Rightarrow> defaultLimit o1) of
        Some n \<Rightarrow> Some n
      | None \<Rightarrow> (case this_config_options T of None \<Rightarrow> None | Some c \<Rightarrow> defaultLimit c))"

text \<open>\<^verbatim>\<open>if (modelOptions.defaultLimit) query.limit(...)\<close>: a limit of 0 is falsy.\<close>

definition query_limit :: "service \<Rightarrow> options option \<Rightarrow> int option" where
  "query_limit T opts =
     (case modelOptions_defaultLimit T opts of
        Some n \<Rightarrow> (if n \<noteq> 0 then Some n else None)
      | None \<Rightarrow> None)"

section \<open>The store and promises\<close>

text \<open>
  The calls the service makes on the store (Mongoose), each on a model:
  \<^verbatim>\<open>Model.create(values)\<close>, \<^verbatim>\<open>Model.findOne(filter)\<close>,
  \<^verbatim>\<open>Model.find(filter)\<close> with an optional \<^verbatim>\<open>select\<close> and \<^verbatim>\<open>limit\<close>,
  \<^verbatim>\<open>Model.update(filter, values)\<close>, \<^verbatim>\<open>Model.remove(filter)\<close>, and
  \<^verbatim>\<open>record.save()\<close> on a document of that model.
\<close>

datatype store_call =
    Create model jsval
  | FindOne model jsval
  | Find model jsval "string option" "int option"
  | Update model jsval jsval
  | Remove model jsval
  | Save model jsval

text \<open>
  The store is outside the service: it is a parameter \<open>ex\<close>, any function from a call and
  a store state to a reply (a value, or the error the call rejects with) and a new state.
  The world an operation runs in is the state of the store and the list of the calls made
  so far.
\<close>

record 's world =
  db :: 's
  calls :: "store_call list"

type_synonym ('s, 'a) promise = "'s world \<Rightarrow> (error + 'a) \<times> 's world"

definition resolve :: "'a \<Rightarrow> ('s, 'a) promise" where
  "resolve x w = (Inr x, w)"

definition reject :: "error \<Rightarrow> ('s, 'a) promise" where
  "reject e w = (Inl e, w)"

text \<open>\<^verbatim>\<open>p.then(f)\<close>: a rejection skips \<open>f\<close> and propagates unchanged.\<close>

definition then_p :: "('s, 'a) promise \<Rightarrow> ('a \<Rightarrow> ('s, 'b) promise) \<Rightarrow> ('s, 'b) promise" where
  "then_p p f w = (case p w of (Inl e, w') \<Rightarrow> (Inl e, w') | (Inr x, w') \<Rightarrow> f x w')"

text \<open>A synchronous throw inside a \<^verbatim>\<open>then\<close> callback rejects the promise.\<close>

definition of_result :: "error + 'a \<Rightarrow> ('s, 'a) promise" where
  "of_result r w = (r, w)"

definition exec :: "(store_call \<Rightarrow> 's \<Rightarrow> (error + jsval) \<times> 's) \<Rightarrow> store_call \<Rightarrow> ('s, jsval) promise" where
  "exec ex c w =
     (case ex c (db w) of (r, d) \<Rightarrow> (r, \<lparr>db = d, calls = calls w @ [c]\<rparr>))"

text \<open>The filters the service builds: \<^verbatim>\<open>{ _id: v }\<close> and \<^verbatim>\<open>{ _id: { $in: ids } }\<close>.\<close>

definition by_id :: "jsval \<Rightarrow> jsval" where
  "by_id v = JObj [(''_id'', v)]"

definition id_in :: "jsval \<Rightarrow> jsval" where
  "id_in ids = JObj [(''_id'', JObj [(''$in'', ids)])]"

section \<open>The CRUD operations\<close>

text \<open>
  A call of a model method on a member inherited from \<^verbatim>\<open>Object.prototype\<close>.  None of
  them has \<^verbatim>\<open>findOne\<close>, \<^verbatim>\<open>find\<close>, \<^verbatim>\<open>update\<close> or \<^verbatim>\<open>remove\<close>: the call throws
  a TypeError (synchronously, where it is not inside a \<^verbatim>\<open>then\<close> callback).  Only
  \<^verbatim>\<open>constructor\<close>, which is \<^verbatim>\<open>Object\<close>, has \<^verbatim>\<open>create\<close>:
  \<^verbatim>\<open>Object.create(values)\<close> returns a new object with no field of its own when
  \<^verbatim>\<open>values\<close> is an object or \<^verbatim>\<open>null\<close>, and throws otherwise.  No store is involved.
\<close>

definition member_create :: "string \<Rightarrow> jsval \<Rightarrow> error + jsval" where
  "member_create member values =
     (if member = ''constructor''
      then (case values of
              JObj kvs \<Rightarrow> Inr (JObj [])
            | JArr xs \<Rightarrow> Inr (JObj [])
            | JNull \<Rightarrow> Inr (JObj [])
            | _ \<Rightarrow> Inl TypeError)
      else Inl TypeError)"

text \<open>\<^verbatim>\<open>create (modelName, values, options)\<close>.\<close>

definition create ::
  "service \<Rightarrow> (store_call \<Rightarrow> 's \<Rightarrow> (error + jsval) \<times> 's) \<Rightarrow> string \<Rightarrow> jsval \<Rightarrow> options option
     \<Rightarrow> ('s, jsval) promise" where
  "create T ex modelName values opts =
     (case getModel T modelName of
        None \<Rightarrow> reject No_model_found
      | Some (Inherited member) \<Rightarrow> of_result (member_create member values)
      | Some (Registered Model) \<Rightarrow> exec ex (Create Model values))"

text \<open>\<^verbatim>\<open>options.findOne === true\<close>, after \<^verbatim>\<open>if (!options) options = { }\<close>.\<close>

definition findOne_set :: "options option \<Rightarrow> bool" where
  "findOne_set opts = (case opts of None \<Rightarrow> False | Some o1 \<Rightarrow> findOne o1)"

text \<open>\<^verbatim>\<open>find (modelName, criteria, options)\<close>.\<close>

definition find_op ::
  "service \<Rightarrow> (store_call \<Rightarrow> 's \<Rightarrow> (error + jsval) \<times> 's) \<Rightarrow> string \<Rightarrow> jsval \<Rightarrow> options option
     \<Rightarrow> ('s, jsval) promise" where
  "find_op T ex modelName criteria opts =
     (case getModel T modelName of
        None \<Rightarrow> reject No_model_found
      | Some (Inherited member) \<Rightarrow> reject TypeError
      | Some (Registered Model) \<Rightarrow>
          (if \<not> isPlainObject criteria \<or> findOne_set opts
           then exec ex (FindOne Model (by_id criteria))
           else exec ex (Find Model criteria None (query_limit T opts))))"

text \<open>
  \<^verbatim>\<open>update (modelName, criteria, values, options)\<close>.  The ids found by the first query
  are kept as the store returned them and used for the update and for the second read.
\<close>

definition update ::
  "service \<Rightarrow> (store_call \<Rightarrow> 's \<Rightarrow> (error + jsval) \<times> 's) \<Rightarrow> string \<Rightarrow> jsval \<Rightarrow> jsval
     \<Rightarrow> options option \<Rightarrow> ('s, jsval) promise" where
  "update T ex modelName criteria values opts =
     (case getModel T modelName of
        None \<Rightarrow> reject No_model_found
      | Some (Inherited member) \<Rightarrow> reject TypeError
      | Some (Registered Model) \<Rightarrow>
          (if isPlainObject criteria
           then then_p (exec ex (Find Model criteria (Some ''_id'') (query_limit T opts)))
                  (\<lambda>foundIds. then_p (exec ex (Update Model (id_in foundIds) values))
                     (\<lambda>_. exec ex (Find Model (id_in foundIds) None None)))
           else then_p (exec ex (Update Model (by_id criteria) values))
                  (\<lambda>_. exec ex (FindOne Model (by_id criteria)))))"

text \<open>\<^verbatim>\<open>destroy (modelName, criteria, options)\<close>.\<close>

definition destroy ::
  "service \<Rightarrow> (store_call \<Rightarrow> 's \<Rightarrow> (error + jsval) \<times> 's) \<Rightarrow> string \<Rightarrow> jsval \<Rightarrow> options option
     \<Rightarrow> ('s, jsval) promise" where
  "destroy T ex modelName criteria opts =
     (case getModel T modelName of
        None \<Rightarrow> reject No_model_found
      | Some (Inherited member) \<Rightarrow> reject TypeError
      | Some (Registered Model) \<Rightarrow>
          (if isPlainObject criteria
           then then_p (exec ex (Find Model criteria None None))
                  (\<lambda>list. then_p (exec ex (Remove Model criteria)) (\<lambda>_. resolve list))
           else then_p (exec ex (FindOne Model (by_id criteria)))
                  (\<lambda>record. then_p (exec ex (Remove Model (by_id criteria))) (\<lambda>_. resolve record))))"

section \<open>The association operations\<close>

text \<open>
  Each operation resolves the parent model first.  Where the name gives a member inherited
  from \<^verbatim>\<open>Object.prototype\<close>, that member has no \<^verbatim>\<open>schema.paths\<close>, so
  \<^verbatim>\<open>_getReferenceModelName\<close> returns \<^verbatim>\<open>false\<close> on it: after the test of the parent
  id, the operation rejects with \<^verbatim>\<open>No such reference exist\<close>.
\<close>

text \<open>\<^verbatim>\<open>options = options || {}\<close>.\<close>

definition or_default :: "options option \<Rightarrow> options option" where
  "or_default opts =
     (case opts of None \<Rightarrow> Some \<lparr>findOne = False, defaultLimit = None\<rparr> | Some o1 \<Rightarrow> Some o1)"

text \<open>\<^verbatim>\<open>_.defaults({ findOne: true }, options)\<close>, for options that are set.\<close>

definition defaults_findOne :: "options option \<Rightarrow> options option" where
  "defaults_findOne opts =
     (case opts of
        None \<Rightarrow> Some \<lparr>findOne = True, defaultLimit = None\<rparr>
      | Some o1 \<Rightarrow> Some \<lparr>findOne = True, defaultLimit = defaultLimit o1\<rparr>)"

text \<open>
  \<^verbatim>\<open>createAssociation (parentModelName, parentId, childAttributeName, values, options)\<close>.
  The parent is mutated in memory and saved as a document of \<^verbatim>\<open>Model\<close>, from which it
  was loaded.  Where the child model name gives an inherited member, \<^verbatim>\<open>this.create\<close>
  throws or returns an object that is no promise, on which \<^verbatim>\<open>.then\<close> throws: a TypeError
  either way.
\<close>

definition createAssociation ::
  "service \<Rightarrow> (store_call \<Rightarrow> 's \<Rightarrow> (error + jsval) \<times> 's) \<Rightarrow> string \<Rightarrow> jsval \<Rightarrow> string \<Rightarrow> jsval
     \<Rightarrow> options option \<Rightarrow> ('s, jsval) promise" where
  "createAssociation T ex parentModelName parentId childAttributeName values opts =
     (case getModel T parentModelName of
        None \<Rightarrow> reject No_model_found
      | Some (Inherited member) \<Rightarrow>
          (if \<not> truthy parentId then reject No_parentId_provided
           else reject No_such_reference_exist)
      | Some (Registered Model) \<Rightarrow>
          (if \<not> truthy parentId then reject No_parentId_provided
           else case getReferenceModelName Model childAttributeName of
             None \<Rightarrow> reject No_such_reference_exist
           | Some childModelName \<Rightarrow>
               (if childModelName = [] then reject No_such_reference_exist
                else then_p (exec ex (FindOne Model (by_id parentId)))
                  (\<lambda>record.
                     if \<not> truthy record then reject No_parent_record_found
                     else case getModel T childModelName of
                       Some (Inherited member) \<Rightarrow> reject TypeError
                     | _ \<Rightarrow> then_p (create T ex childModelName values (or_default opts))
                       (\<lambda>child.
                          if \<not> truthy child \<or> \<not> truthy (get_prop child ''_id'')
                          then reject No_id_for_child_record
                          else then_p
                            (of_result
                               (case getReferenceDefinition Model childAttributeName of
                                  None \<Rightarrow> Inl TypeError
                                | Some childDefinition \<Rightarrow>
                                    (if path_instance childDefinition = ''Array''
                                     then (case push (get_prop record childAttributeName)
                                                  (get_prop child ''_id'') of
                                             Inl e \<Rightarrow> Inl e
                                           | Inr arr \<Rightarrow> set_prop record childAttributeName arr)
                                     else set_prop record childAttributeName
                                            (get_prop child ''_id''))))
                            (\<lambda>record'. then_p (exec ex (Save Model record'))
                               (\<lambda>_. resolve child)))))))"

text \<open>
  \<^verbatim>\<open>findAssociation (parentModelName, parentId, childAttributeName, criteria, options)\<close>.
  The child model is looked up in \<^verbatim>\<open>app.orm\<close> alone, and the parent is loaded with
  \<^verbatim>\<open>this.find('User', parentId, options)\<close>.
\<close>

definition findAssociation ::
  "service \<Rightarrow> (store_call \<Rightarrow> 's \<Rightarrow> (error + jsval) \<times> 's) \<Rightarrow> string \<Rightarrow> jsval \<Rightarrow> string \<Rightarrow> jsval
     \<Rightarrow> options option \<Rightarrow> ('s, jsval) promise" where
  "findAssociation T ex parentModelName parentId childAttributeName criteria opts =
     (case getModel T parentModelName of
        None \<Rightarrow> reject No_model_found
      | Some (Inherited member) \<Rightarrow>
          (if \<not> truthy parentId then reject No_parentId_provided
           else reject No_such_reference_exist)
      | Some (Registered Model) \<Rightarrow>
          (if \<not> truthy parentId then reject No_parentId_provided
           else case getReferenceModelName Model childAttributeName of
             None \<Rightarrow> reject No_such_reference_exist
           | Some childModelName \<Rightarrow>
               (if childModelName = [] then reject No_such_reference_exist
                else if registry_get (orm T) childModelName = None
                then reject No_such_reference_exist
                else then_p (find_op T ex ''User'' parentId (or_default opts))
                  (\<lambda>record.
                     if \<not> truthy record then reject No_parent_record_found
                     else if \<not> truthy (get_prop record childAttributeName)
                     then resolve (JArr [])
                     else find_op T ex childModelName
                            (extend_js
                               (if isArray (get_prop record childAttributeName)
                                then id_in (get_prop record childAttributeName)
                                else by_id (get_prop record childAttributeName))
                               (or_empty criteria))
                            None))))"

text \<open>
  \<^verbatim>\<open>updateAssociation (parentModelName, parentId, childAttributeName, criteria, values,
  options)\<close>.
\<close>

definition updateAssociation ::
  "service \<Rightarrow> (store_call \<Rightarrow> 's \<Rightarrow> (error + jsval) \<times> 's) \<Rightarrow> string \<Rightarrow> jsval \<Rightarrow> string \<Rightarrow> jsval
     \<Rightarrow> jsval \<Rightarrow> options option \<Rightarrow> ('s, jsval) promise" where
  "updateAssociation T ex parentModelName parentId childAttributeName criteria values opts =
     (case getModel T parentModelName of
        None \<Rightarrow> reject No_model_found
      | Some (Inherited member) \<Rightarrow>
          (if \<not> truthy parentId then reject No_parentId_provided
           else reject No_such_reference_exist)
      | Some (Registered Model) \<Rightarrow>
          (if \<not> truthy parentId then reject No_parentId_provided
           else case getReferenceModelName Model childAttributeName of
             None \<Rightarrow> reject No_such_reference_exist
           | Some childModelName \<Rightarrow>
               (if childModelName = [] then reject No_such_reference_exist
                else then_p (find_op T ex parentModelName parentId
                               (defaults_findOne (or_default opts)))
                  (\<lambda>record.
                     if \<not> truthy record then reject No_parent_record_found
                     else if \<not> truthy (get_prop record childAttributeName)
                     then resolve JNull
                     else update T ex childModelName
                            (extend_js
                               (id_in (if isArray (get_prop record childAttributeName)
                                       then get_prop record childAttributeName
                                       else JArr [get_prop record childAttributeName]))
                               (or_empty criteria))
                            values None))))"

text \<open>
  \<^verbatim>\<open>destroyAssociation (parentModelName, parentId, childAttributeName, criteria,
  options)\<close>.  The case distinction on the reference is \<^verbatim>\<open>_.isArray\<close>.  The two last
  callbacks are \<^verbatim>\<open>id => { _id: id }\<close> and \<^verbatim>\<open>() => { _id: record[...] }\<close>: arrow
  functions whose body is a block holding a labelled statement, so they return
  \<^verbatim>\<open>undefined\<close>.  The parent is saved as a document of \<^verbatim>\<open>Model\<close>, which is the
  model \<^verbatim>\<open>find\<close> loaded it from.
\<close>

definition destroyAssociation ::
  "service \<Rightarrow> (store_call \<Rightarrow> 's \<Rightarrow> (error + jsval) \<times> 's) \<Rightarrow> string \<Rightarrow> jsval \<Rightarrow> string \<Rightarrow> jsval
     \<Rightarrow> options option \<Rightarrow> ('s, jsval) promise" where
  "destroyAssociation T ex parentModelName parentId childAttributeName criteria opts =
     (case getModel T parentModelName of
        None \<Rightarrow> reject No_model_found
      | Some (Inherited member) \<Rightarrow>
          (if \<not> truthy parentId then reject No_parentId_provided
           else reject No_such_reference_exist)
      | Some (Registered Model) \<Rightarrow>
          (if \<not> truthy parentId then reject No_parentId_provided
           else case getReferenceModelName Model childAttributeName of
             None \<Rightarrow> reject No_such_reference_exist
           | Some childModelName \<Rightarrow>
               (if childModelName = [] then reject No_such_reference_exist
                else then_p (find_op T ex parentModelName parentId (or_default opts))
                  (\<lambda>record.
                     if \<not> truthy record then reject No_parent_record_found
                     else case get_prop record childAttributeName of
                       JArr refs \<Rightarrow>
                         then_p (find_op T ex childModelName criteria (or_default opts))
                           (\<lambda>list.
                              if \<not> truthy list then resolve (JArr [])
                              else then_p (of_result (map_ids list))
                                (\<lambda>ids. then_p
                                   (then_p (destroy T ex childModelName (id_in (JArr ids)) None)
                                      (\<lambda>_. then_p
                                         (of_result (set_prop record childAttributeName
                                                       (JArr (difference refs ids))))
                                         (\<lambda>record'. exec ex (Save Model record'))))
                                   (\<lambda>_. resolve (JArr (map (\<lambda>id. JUndefined) ids)))))
                     | ref \<Rightarrow>
                         then_p
                           (then_p (destroy T ex childModelName ref (or_default opts))
                              (\<lambda>_. then_p (of_result (set_prop record childAttributeName JNull))
                                 (\<lambda>record'. exec ex (Save Model record'))))
                           (\<lambda>_. resolve JUndefined)))))"

section \<open>A small store and service for concrete runs\<close>

text \<open>
  The general theorems below hold for every store \<open>ex\<close>.  To run the operations on concrete
  inputs, here is one store: collections of documents in memory, keyed by model name, with
  filters of field equalities and \<^verbatim>\<open>$in\<close> conditions.  An element of an \<^verbatim>\<open>$in\<close> list
  that is a document stands for its \<^verbatim>\<open>_id\<close>, as the store casts it.
\<close>

type_synonym mem = "(string \<times> jsval list) list"

fun cast_id :: "jsval \<Rightarrow> jsval" where
  "cast_id (JObj kvs) = (case map_of kvs ''_id'' of Some v \<Rightarrow> v | None \<Rightarrow> JObj kvs)"
| "cast_id v = v"

definition cond_holds :: "jsval \<Rightarrow> jsval \<Rightarrow> bool" where
  "cond_holds x c =
     (case c of
        JObj [(k, JArr ys)] \<Rightarrow> (if k = ''$in'' then x \<in> set (map cast_id ys) else x = c)
      | _ \<Rightarrow> x = c)"

definition matches :: "jsval \<Rightarrow> jsval \<Rightarrow> bool" where
  "matches flt doc = list_all (\<lambda>(k, c). cond_holds (get_prop doc k) c) (entries flt)"

definition docs_of :: "mem \<Rightarrow> model \<Rightarrow> jsval list" where
  "docs_of s M = (case map_of s (mname M) of Some ds \<Rightarrow> ds | None \<Rightarrow> [])"

fun set_docs :: "string \<Rightarrow> jsval list \<Rightarrow> mem \<Rightarrow> mem" where
  "set_docs n ds [] = [(n, ds)]"
| "set_docs n ds ((n', ds') # s) =
     (if n' = n then (n, ds) # s else (n', ds') # set_docs n ds s)"

fun save_doc :: "jsval \<Rightarrow> jsval list \<Rightarrow> jsval list" where
  "save_doc r [] = [r]"
| "save_doc r (d # ds) =
     (if get_prop d ''_id'' = get_prop r ''_id'' then r # ds else d # save_doc r ds)"

fun mem_store :: "store_call \<Rightarrow> mem \<Rightarrow> (error + jsval) \<times> mem" where
  "mem_store (Create M values) s =
     (Inr values,
      set_docs (mname M) (docs_of s M @ (case values of JArr vs \<Rightarrow> vs | v \<Rightarrow> [v])) s)"
| "mem_store (FindOne M flt) s =
     (Inr (case filter (matches flt) (docs_of s M) of [] \<Rightarrow> JNull | d # ds \<Rightarrow> d), s)"
| "mem_store (Find M flt sel lim) s =
     (Inr (JArr (map (\<lambda>d. case sel of None \<Rightarrow> d | Some f \<Rightarrow> JObj [(f, get_prop d f)])
                  ((case lim of None \<Rightarrow> (\<lambda>ds. ds) | Some n \<Rightarrow> take (nat n))
                     (filter (matches flt) (docs_of s M))))),
      s)"
| "mem_store (Update M flt values) s =
     (Inr (JObj [(''ok'', JNum 1)]),
      set_docs (mname M)
        (map (\<lambda>d. if matches flt d then extend_js d values else d) (docs_of s M)) s)"
| "mem_store (Remove M flt) s =
     (Inr (JObj [(''ok'', JNum 1)]),
      set_docs (mname M) (filter (\<lambda>d. \<not> matches flt d) (docs_of s M)) s)"
| "mem_store (Save M r) s = (Inr r, set_docs (mname M) (save_doc r (docs_of s M)) s)"

text \<open>
  A store shared with another client, whose insert of the document \<open>extra\<close> into the
  model being read lands right after each multi-record read.
\<close>

definition racing_store :: "jsval \<Rightarrow> store_call \<Rightarrow> mem \<Rightarrow> (error + jsval) \<times> mem" where
  "racing_store extra c s =
     (case c of
        Find M flt sel lim \<Rightarrow>
          (case mem_store c s of (r, s') \<Rightarrow> (r, snd (mem_store (Create M extra) s')))
      | _ \<Rightarrow> mem_store c s)"

text \<open>
  A service with the models of the specification's examples: \<^verbatim>\<open>Parent\<close> and
  \<^verbatim>\<open>User\<close>, each with an array of references \<^verbatim>\<open>tags\<close> to \<^verbatim>\<open>Tag\<close> and a single
  reference \<^verbatim>\<open>profile\<close> to \<^verbatim>\<open>Profile\<close>.
\<close>

definition ref_paths :: "(string \<times> path_def) list" where
  "ref_paths =
     [(''tags'', \<lparr>path_instance = ''Array'', options_ref = JStr ''Tag''\<rparr>),
      (''profile'', \<lparr>path_instance = ''ObjectID'', options_ref = JStr ''Profile''\<rparr>),
      (''name'', \<lparr>path_instance = ''String'', options_ref = JUndefined\<rparr>)]"

definition Parent :: model where
  "Parent = \<lparr>mname = ''Parent'', schema_paths = Some ref_paths\<rparr>"

definition User :: model where
  "User = \<lparr>mname = ''User'', schema_paths = Some ref_paths\<rparr>"

definition Tag :: model where
  "Tag = \<lparr>mname = ''Tag'',
          schema_paths = Some [(''value'', \<lparr>path_instance = ''Number'', options_ref = JUndefined\<rparr>)]\<rparr>"

definition Profile :: model where
  "Profile = \<lparr>mname = ''Profile'', schema_paths = Some []\<rparr>"

text \<open>A model whose array of references \<^verbatim>\<open>children\<close> refers to the model itself.\<close>

definition Node :: model where
  "Node = \<lparr>mname = ''Node'',
           schema_paths =
             Some [(''children'', \<lparr>path_instance = ''Array'', options_ref = JStr ''Node''\<rparr>)]\<rparr>"

definition demo_service :: service where
  "demo_service =
     \<lparr>orm = [(''Parent'', Parent), (''User'', User), (''Tag'', Tag), (''Profile'', Profile),
             (''Node'', Node)],
      packs_orm = [],
      app_config_options = None,
      this_config_options = None\<rparr>"

definition tag :: "int \<Rightarrow> jsval" where
  "tag n = JObj [(''_id'', JNum n), (''value'', JNum n)]"

text \<open>The parent \<^verbatim>\<open>{_id: 1, tags: [10, 20, 30]}\<close> and its three tags.\<close>

definition demo_db :: mem where
  "demo_db =
     [(''Parent'', [JObj [(''_id'', JNum 1), (''tags'', JArr [JNum 10, JNum 20, JNum 30])]]),
      (''Tag'', [tag 10, tag 20, tag 30])]"

definition start :: "mem \<Rightarrow> mem world" where
  "start s = \<lparr>db = s, calls = []\<rparr>"

text \<open>
  The same service on an application that configures a default limit of 2; the service
  itself has no \<^verbatim>\<open>config\<close>.
\<close>

definition limited_service :: service where
  "limited_service =
     demo_service\<lparr>app_config_options := Some \<lparr>findOne = False, defaultLimit = Some 2\<rparr>\<rparr>"

definition item :: "int \<Rightarrow> int \<Rightarrow> jsval" where
  "item n v = JObj [(''_id'', JNum n), (''value'', JNum v)]"

definition items_db :: mem where
  "items_db = [(''Tag'', [item 10 5, item 20 5, item 30 5])]"

text \<open>A parent whose single reference \<^verbatim>\<open>profile\<close> is \<^verbatim>\<open>null\<close>.\<close>

definition orphan_db :: mem where
  "orphan_db =
     [(''Parent'', [JObj [(''_id'', JNum 2), (''profile'', JNull)]]),
      (''Profile'', [JObj [(''_id'', JNum 7)]])]"

text \<open>A parent whose single reference \<^verbatim>\<open>profile\<close> holds the id 7.\<close>

definition profiled_db :: mem where
  "profiled_db =
     [(''Parent'', [JObj [(''_id'', JNum 3), (''profile'', JNum 7)]]),
      (''Profile'', [JObj [(''_id'', JNum 7)]])]"

text \<open>Node 1, which lists node 2 as its child, and node 2.\<close>

definition node_db :: mem where
  "node_db =
     [(''Node'',
       [JObj [(''_id'', JNum 1), (''children'', JArr [JNum 2])],
        JObj [(''_id'', JNum 2), (''children'', JArr [])]])]"

text \<open>A user whose array of references \<^verbatim>\<open>tags\<close> is empty.\<close>

definition childless_db :: mem where
  "childless_db =
     [(''User'', [JObj [(''_id'', JNum 1), (''tags'', JArr [])]]), (''Tag'', [tag 10])]"

section \<open>Promises that resolve\<close>

lemma then_p_Inr:
  "then_p p f w = (Inr y, w') \<Longrightarrow> \<exists>x w1. p w = (Inr x, w1) \<and> f x w1 = (Inr y, w')"
  by (auto simp: then_p_def split: prod.splits sum.splits)

lemma exec_Inr:
  "exec ex c w = (Inr x, w1)
     \<Longrightarrow> \<exists>s. ex c (db w) = (Inr x, s) \<and> w1 = \<lparr>db = s, calls = calls w @ [c]\<rparr>"
  by (auto simp: exec_def split: prod.splits)

lemma of_result_Inr: "of_result r w = (Inr x, w1) \<Longrightarrow> r = Inr x \<and> w1 = w"
  by (simp add: of_result_def)

lemma resolve_Inr: "resolve v w = (Inr x, w1) \<Longrightarrow> x = v \<and> w1 = w"
  by (auto simp: resolve_def)

lemma reject_Inr_iff [simp]: "reject e w = (Inr x, w1) \<longleftrightarrow> False"
  by (simp add: reject_def)

lemma map_of_set_field: "map_of (set_field k v kvs) k = Some v"
  by (induction kvs) auto

lemma get_prop_set_field: "get_prop (JObj (set_field k v kvs)) k = v"
  by (simp add: map_of_set_field)

lemma push_Inr: "push a v = Inr arr \<Longrightarrow> \<exists>xs. a = JArr xs \<and> arr = JArr (xs @ [v])"
  by (cases a) auto

lemma set_prop_Inr:
  "set_prop r k v = Inr r' \<Longrightarrow> \<exists>kvs. r = JObj kvs \<and> r' = JObj (set_field k v kvs)"
  by (cases r) auto

lemma ref_def_exists:
  "getReferenceModelName m a = Some cm \<Longrightarrow> \<exists>d. getReferenceDefinition m a = Some d"
  by (auto simp: getReferenceModelName_def split: option.splits)

lemma isPlainObject_extend_js: "isPlainObject (extend_js (id_in ids) src)"
  by (simp add: id_in_def)


lemma docs_of_set_docs_other: "mname M \<noteq> n \<Longrightarrow> docs_of (set_docs n ds s) M = docs_of s M"
  by (induction s) (auto simp: docs_of_def)

section \<open>Unknown model names\<close>

text \<open>
  Claim C6.  The name \<^verbatim>\<open>constructor\<close> is registered in neither registry, yet the lookup
  of \<^verbatim>\<open>_getModel\<close> finds the member the registry object inherits, so no operation
  rejects with \<^verbatim>\<open>No model found\<close>: create returns the object of
  \<^verbatim>\<open>Object.create(values)\<close>, find, update and destroy throw a TypeError, and the four
  association operations reject with \<^verbatim>\<open>No such reference exist\<close>.  None makes a store
  call.
\<close>

theorem inherited_model_name_not_rejected:
  "map_of (orm demo_service) ''constructor'' = None
   \<and> map_of (packs_orm demo_service) ''constructor'' = None
   \<and> create demo_service mem_store ''constructor'' (tag 5) None (start demo_db)
       = (Inr (JObj []), start demo_db)
   \<and> find_op demo_service mem_store ''constructor'' (JNum 1) None (start demo_db)
       = (Inl TypeError, start demo_db)
   \<and> update demo_service mem_store ''constructor'' (JNum 1) (tag 5) None (start demo_db)
       = (Inl TypeError, start demo_db)
   \<and> destroy demo_service mem_store ''constructor'' (JNum 1) None (start demo_db)
       = (Inl TypeError, start demo_db)
   \<and> createAssociation demo_service mem_store ''constructor'' (JNum 1) ''tags'' (tag 5) None
        (start demo_db) = (Inl No_such_reference_exist, start demo_db)
   \<and> findAssociation demo_service mem_store ''constructor'' (JNum 1) ''tags'' (JObj []) None
        (start demo_db) = (Inl No_such_reference_exist, start demo_db)
   \<and> updateAssociation demo_service mem_store ''constructor'' (JNum 1) ''tags'' (JObj []) (tag 5)
        None (start demo_db) = (Inl No_such_reference_exist, start demo_db)
   \<and> destroyAssociation demo_service mem_store ''constructor'' (JNum 1) ''tags'' (JObj []) None
        (start demo_db) = (Inl No_such_reference_exist, start demo_db)"
  by code_simp

theorem inherited_model_name_not_rejected_witness:
  "create demo_service mem_store ''constructor'' (tag 5) None (start demo_db)
     \<noteq> (Inl No_model_found, start demo_db)
   \<and> find_op demo_service mem_store ''constructor'' (JNum 1) None (start demo_db)
     \<noteq> (Inl No_model_found, start demo_db)
   \<and> createAssociation demo_service mem_store ''constructor'' (JNum 1) ''tags'' (tag 5) None
        (start demo_db) \<noteq> (Inl No_model_found, start demo_db)"
  using inherited_model_name_not_rejected by simp

text \<open>
  For a name under which neither registry has a member, its own or inherited, each of the
  eight operations rejects with \<^verbatim>\<open>No model found\<close> and makes no store call: the world,
  that is the state of the store and the list of calls, is returned as it was.
\<close>

lemma unknown_model_no_store_call:
  assumes "getModel T name = None"
  shows "create T ex name vals opts w = (Inl No_model_found, w)
       \<and> find_op T ex name criteria opts w = (Inl No_model_found, w)
       \<and> update T ex name criteria vals opts w = (Inl No_model_found, w)
       \<and> destroy T ex name criteria opts w = (Inl No_model_found, w)
       \<and> createAssociation T ex name parentId attr vals opts w = (Inl No_model_found, w)
       \<and> findAssociation T ex name parentId attr criteria opts w = (Inl No_model_found, w)
       \<and> updateAssociation T ex name parentId attr criteria vals opts w
            = (Inl No_model_found, w)
       \<and> destroyAssociation T ex name parentId attr criteria opts w
            = (Inl No_model_found, w)"
  using assms
  by (simp add: create_def find_op_def update_def destroy_def createAssociation_def
      findAssociation_def updateAssociation_def destroyAssociation_def reject_def)

lemma unknown_model_no_store_call_example:
  "getModel demo_service ''Ghost'' = None
   \<and> create demo_service mem_store ''Ghost'' (tag 5) None (start demo_db)
       = (Inl No_model_found, start demo_db)
   \<and> find_op demo_service mem_store ''Ghost'' (JNum 1) None (start demo_db)
       = (Inl No_model_found, start demo_db)
   \<and> update demo_service mem_store ''Ghost'' (JNum 1) (tag 5) None (start demo_db)
       = (Inl No_model_found, start demo_db)
   \<and> destroy demo_service mem_store ''Ghost'' (JNum 1) None (start demo_db)
       = (Inl No_model_found, start demo_db)
   \<and> createAssociation demo_service mem_store ''Ghost'' (JNum 1) ''tags'' (tag 5) None
        (start demo_db) = (Inl No_model_found, start demo_db)
   \<and> findAssociation demo_service mem_store ''Ghost'' (JNum 1) ''tags'' (JNum 1) None
        (start demo_db) = (Inl No_model_found, start demo_db)
   \<and> updateAssociation demo_service mem_store ''Ghost'' (JNum 1) ''tags'' (JNum 1) (tag 5) None
        (start demo_db) = (Inl No_model_found, start demo_db)
   \<and> destroyAssociation demo_service mem_store ''Ghost'' (JNum 1) ''tags'' (JNum 1) None
        (start demo_db) = (Inl No_model_found, start demo_db)"
proof -
  have h: "getModel demo_service ''Ghost'' = None"
    by code_simp
  show ?thesis
    using h unknown_model_no_store_call [OF h, where ex = mem_store and vals = "tag 5"
        and opts = None and w = "start demo_db" and criteria = "JNum 1"
        and parentId = "JNum 1" and attr = "''tags''"]
    by simp
qed


section \<open>Single-record queries of find\<close>

text \<open>
  Claim C1, as stated: \<^verbatim>\<open>find(model, scalarId)\<close> and
  \<^verbatim>\<open>find(model, {_id: scalarId}, {findOne: true})\<close> produce the same query and return
  the same result.  On the parent \<^verbatim>\<open>{_id: 1, ...}\<close> they do not: the first asks for
  \<^verbatim>\<open>{_id: 1}\<close> and returns the parent, the second asks for \<^verbatim>\<open>{_id: {_id: 1}}\<close> and
  returns \<^verbatim>\<open>null\<close>.
\<close>

theorem find_scalar_vs_filter_findOne_counterexample:
  "find_op demo_service mem_store ''Parent'' (JNum 1) None (start demo_db)
     = (Inr (JObj [(''_id'', JNum 1), (''tags'', JArr [JNum 10, JNum 20, JNum 30])]),
        \<lparr>db = demo_db, calls = [FindOne Parent (JObj [(''_id'', JNum 1)])]\<rparr>)
   \<and> find_op demo_service mem_store ''Parent'' (JObj [(''_id'', JNum 1)])
        (Some \<lparr>findOne = True, defaultLimit = None\<rparr>) (start demo_db)
     = (Inr JNull,
        \<lparr>db = demo_db, calls = [FindOne Parent (JObj [(''_id'', JObj [(''_id'', JNum 1)])])]\<rparr>)
   \<and> find_op demo_service mem_store ''Parent'' (JNum 1) None (start demo_db)
     \<noteq> find_op demo_service mem_store ''Parent'' (JObj [(''_id'', JNum 1)])
         (Some \<lparr>findOne = True, defaultLimit = None\<rparr>) (start demo_db)"
  by code_simp

text \<open>
  Claim C1, amended.  With the option \<^verbatim>\<open>findOne: true\<close>, find takes the criteria value
  as a whole for the primary key.  So for every model name and every scalar id, find with
  the bare id and find with the same bare id plus \<^verbatim>\<open>findOne: true\<close> produce the same
  query and return the same result, while find with the filter \<^verbatim>\<open>{_id: scalarId}\<close>
  plus \<^verbatim>\<open>findOne: true\<close> asks for the single record whose primary key is the object
  \<^verbatim>\<open>{_id: scalarId}\<close>.
\<close>

theorem find_findOne_takes_criteria_as_key:
  assumes "\<not> isPlainObject scalarId"
  shows "find_op T ex name scalarId None w
           = find_op T ex name scalarId (Some \<lparr>findOne = True, defaultLimit = lim\<rparr>) w
       \<and> find_op T ex name scalarId None w
           = (case getModel T name of
                None \<Rightarrow> (Inl No_model_found, w)
              | Some (Inherited member) \<Rightarrow> (Inl TypeError, w)
              | Some (Registered Model) \<Rightarrow>
                  exec ex (FindOne Model (JObj [(''_id'', scalarId)])) w)
       \<and> find_op T ex name (JObj [(''_id'', scalarId)])
            (Some \<lparr>findOne = True, defaultLimit = lim\<rparr>) w
           = (case getModel T name of
                None \<Rightarrow> (Inl No_model_found, w)
              | Some (Inherited member) \<Rightarrow> (Inl TypeError, w)
              | Some (Registered Model) \<Rightarrow>
                  exec ex (FindOne Model (JObj [(''_id'', JObj [(''_id'', scalarId)])])) w)"
  using assms
  by (simp add: find_op_def findOne_set_def by_id_def reject_def
      split: option.splits handle.splits)

theorem find_findOne_takes_criteria_as_key_witness:
  "\<not> isPlainObject (JNum 1)
   \<and> find_op demo_service mem_store ''Parent'' (JNum 1) None (start demo_db)
       = find_op demo_service mem_store ''Parent'' (JNum 1)
           (Some \<lparr>findOne = True, defaultLimit = None\<rparr>) (start demo_db)
   \<and> find_op demo_service mem_store ''Parent'' (JNum 1) None (start demo_db)
       = exec mem_store (FindOne Parent (JObj [(''_id'', JNum 1)])) (start demo_db)
   \<and> find_op demo_service mem_store ''Parent'' (JObj [(''_id'', JNum 1)])
        (Some \<lparr>findOne = True, defaultLimit = None\<rparr>) (start demo_db)
       = exec mem_store (FindOne Parent (JObj [(''_id'', JObj [(''_id'', JNum 1)])]))
           (start demo_db)"
proof -
  have h: "\<not> isPlainObject (JNum 1)"
    by simp
  have m: "getModel demo_service ''Parent'' = Some (Registered Parent)"
    by code_simp
  from find_findOne_takes_criteria_as_key [OF h, where T = demo_service and ex = mem_store
      and name = "''Parent''" and w = "start demo_db" and lim = None]
  show ?thesis
    unfolding m option.case handle.case using h by blast
qed

section \<open>destroy on a filter\<close>

text \<open>
  Claim C3, as stated: destroy on a filter removes exactly the records identified by the
  ids of the set it read before, so that a record matched by the criteria at removal time
  but absent from the read set is not removed.  The source removes with
  \<^verbatim>\<open>Model.remove(criteria)\<close>.  Here another client inserts the tag
  \<^verbatim>\<open>{_id: 99, value: 20}\<close> between the read and the removal: destroy returns the read
  set \<^verbatim>\<open>[tag 20]\<close> and the store has lost tag 99 as well, which a removal by the ids of
  the read set would have kept.
\<close>

theorem destroy_filter_removes_by_criteria_counterexample:
  "destroy demo_service (racing_store (JObj [(''_id'', JNum 99), (''value'', JNum 20)])) ''Tag''
     (JObj [(''value'', JNum 20)]) None (start demo_db)
     = (Inr (JArr [tag 20]),
        \<lparr>db = [(''Parent'',
                 [JObj [(''_id'', JNum 1), (''tags'', JArr [JNum 10, JNum 20, JNum 30])]]),
                (''Tag'', [tag 10, tag 30])],
           calls = [Find Tag (JObj [(''value'', JNum 20)]) None None,
                    Remove Tag (JObj [(''value'', JNum 20)])]\<rparr>)
   \<and> snd (racing_store (JObj [(''_id'', JNum 99), (''value'', JNum 20)])
            (Find Tag (JObj [(''value'', JNum 20)]) None None) demo_db)
     = [(''Parent'', [JObj [(''_id'', JNum 1), (''tags'', JArr [JNum 10, JNum 20, JNum 30])]]),
        (''Tag'', [tag 10, tag 20, tag 30, JObj [(''_id'', JNum 99), (''value'', JNum 20)]])]
   \<and> snd (mem_store (Remove Tag (id_in (JArr [JNum 20])))
            (snd (racing_store (JObj [(''_id'', JNum 99), (''value'', JNum 20)])
                    (Find Tag (JObj [(''value'', JNum 20)]) None None) demo_db)))
     = [(''Parent'', [JObj [(''_id'', JNum 1), (''tags'', JArr [JNum 10, JNum 20, JNum 30])]]),
        (''Tag'', [tag 10, tag 30, JObj [(''_id'', JNum 99), (''value'', JNum 20)]])]"
  by code_simp

text \<open>
  Claim C3, amended.  For every model and every filter criteria, destroy first reads the
  matching records with \<^verbatim>\<open>Model.find(criteria)\<close>, then removes with the same criteria,
  \<^verbatim>\<open>Model.remove(criteria)\<close> (every record that matches at removal time, not the ids of
  the records read), and returns the records read before.
\<close>

theorem destroy_filter_removes_by_criteria:
  assumes "getModel T name = Some (Registered Model)"
    and "isPlainObject criteria"
    and "ex (Find Model criteria None None) (db w) = (Inr list, s1)"
    and "ex (Remove Model criteria) s1 = (Inr r, s2)"
  shows "destroy T ex name criteria opts w
           = (Inr list,
              \<lparr>db = s2, calls = calls w @ [Find Model criteria None None, Remove Model criteria]\<rparr>)"
  using assms
  by (simp add: destroy_def then_p_def exec_def resolve_def)

theorem destroy_filter_removes_by_criteria_witness:
  "getModel demo_service ''Tag'' = Some (Registered Tag)
   \<and> isPlainObject (JObj [(''value'', JNum 20)])
   \<and> mem_store (Find Tag (JObj [(''value'', JNum 20)]) None None) (db (start demo_db))
       = (Inr (JArr [tag 20]), demo_db)
   \<and> mem_store (Remove Tag (JObj [(''value'', JNum 20)])) demo_db
       = (Inr (JObj [(''ok'', JNum 1)]), set_docs ''Tag'' [tag 10, tag 30] demo_db)
   \<and> destroy demo_service mem_store ''Tag'' (JObj [(''value'', JNum 20)]) None (start demo_db)
       = (Inr (JArr [tag 20]),
          \<lparr>db = set_docs ''Tag'' [tag 10, tag 30] demo_db,
             calls = calls (start demo_db)
               @ [Find Tag (JObj [(''value'', JNum 20)]) None None,
                  Remove Tag (JObj [(''value'', JNum 20)])]\<rparr>)"
proof -
  have h1: "getModel demo_service ''Tag'' = Some (Registered Tag)"
    by code_simp
  have h2: "isPlainObject (JObj [(''value'', JNum 20)])"
    by simp
  have h3: "mem_store (Find Tag (JObj [(''value'', JNum 20)]) None None) (db (start demo_db))
       = (Inr (JArr [tag 20]), demo_db)"
    by code_simp
  have h4: "mem_store (Remove Tag (JObj [(''value'', JNum 20)])) demo_db
       = (Inr (JObj [(''ok'', JNum 1)]), set_docs ''Tag'' [tag 10, tag 30] demo_db)"
    by code_simp
  from destroy_filter_removes_by_criteria [OF h1 h2 h3 h4, where opts = None]
  show ?thesis
    using h1 h2 h3 h4 by blast
qed

section \<open>update on a filter\<close>

text \<open>
  Claim C5.  On an application that configures a default limit of 2, update on a filter
  that matches three records selects their ids with no limit, updates the three and
  returns the three: the configured limit is not applied, because the operations read
  \<^verbatim>\<open>this.config\<close>, which a service does not have, and not \<^verbatim>\<open>this.app.config\<close>.
\<close>

theorem update_ignores_configured_limit:
  "app_config_options limited_service = Some \<lparr>findOne = False, defaultLimit = Some 2\<rparr>
   \<and> update limited_service mem_store ''Tag'' (JObj [(''value'', JNum 5)])
        (JObj [(''value'', JNum 6)]) None (start items_db)
       = (Inr (JArr [item 10 6, item 20 6, item 30 6]),
          \<lparr>db = [(''Tag'', [item 10 6, item 20 6, item 30 6])],
             calls = [Find Tag (JObj [(''value'', JNum 5)]) (Some ''_id'') None,
                      Update Tag
                        (id_in (JArr [JObj [(''_id'', JNum 10)], JObj [(''_id'', JNum 20)],
                                      JObj [(''_id'', JNum 30)]]))
                        (JObj [(''value'', JNum 6)]),
                      Find Tag
                        (id_in (JArr [JObj [(''_id'', JNum 10)], JObj [(''_id'', JNum 20)],
                                      JObj [(''_id'', JNum 30)]]))
                        None None]\<rparr>)"
  by code_simp

text \<open>
  On every store and whatever the application configures: the limit of the first query
  comes from the options of the caller and from \<^verbatim>\<open>this.config\<close> alone.
\<close>

lemma query_limit_ignores_app_config:
  "query_limit (T\<lparr>app_config_options := c\<rparr>) opts = query_limit T opts"
  by (simp add: query_limit_def modelOptions_defaultLimit_def split: option.splits)

text \<open>
  On every store: for a filter, update selects the ids of the matching records, applies
  the update to exactly that id set (\<^verbatim>\<open>{_id: {$in: ids}}\<close>), then reads the records of the
  same id set again and returns them; the second read does not use the criteria.
\<close>

lemma update_filter_fixed_id_set:
  assumes "getModel T name = Some (Registered Model)"
    and "isPlainObject criteria"
    and "ex (Find Model criteria (Some ''_id'') (query_limit T opts)) (db w) = (Inr ids, s1)"
    and "ex (Update Model (id_in ids) vals) s1 = (Inr r, s2)"
    and "ex (Find Model (id_in ids) None None) s2 = (Inr records, s3)"
  shows "update T ex name criteria vals opts w
           = (Inr records,
              \<lparr>db = s3,
                 calls = calls w
                   @ [Find Model criteria (Some ''_id'') (query_limit T opts),
                      Update Model (id_in ids) vals,
                      Find Model (id_in ids) None None]\<rparr>)"
  using assms
  by (simp add: update_def then_p_def exec_def)

section \<open>createAssociation\<close>

text \<open>
  Claim C7.  createAssociation resolves with \<open>child\<close> exactly when: the parent model
  and the child model of the reference resolve, the parent id is given, the store finds
  the parent, the create call on the child model replies \<open>child\<close>, which has an
  \<^verbatim>\<open>_id\<close>, and the store saves the parent.  The parent saved is the loaded one with
  the reference field set to \<open>newval\<close>: for a path of instance \<^verbatim>\<open>Array\<close> the field held
  an array \<open>ids\<close> and \<open>newval\<close> is \<open>ids\<close> with the child's \<^verbatim>\<open>_id\<close> appended at the end;
  for any other path \<open>newval\<close> is the child's \<^verbatim>\<open>_id\<close>, whatever the field held before.
  The calls made are the load of the parent, the create of the child and the save of the
  parent.
\<close>

theorem createAssociation_appends_or_overwrites:
  "createAssociation T ex parentModelName parentId attr vals opts w = (Inr child, w')
   \<longleftrightarrow>
   (\<exists>Model childModelName ChildModel childDefinition kvs newval s1 s2 s3 r.
      getModel T parentModelName = Some (Registered Model)
    \<and> truthy parentId
    \<and> getReferenceModelName Model attr = Some childModelName
    \<and> childModelName \<noteq> []
    \<and> getModel T childModelName = Some (Registered ChildModel)
    \<and> getReferenceDefinition Model attr = Some childDefinition
    \<and> ex (FindOne Model (by_id parentId)) (db w) = (Inr (JObj kvs), s1)
    \<and> ex (Create ChildModel vals) s1 = (Inr child, s2)
    \<and> truthy child
    \<and> truthy (get_prop child ''_id'')
    \<and> (if path_instance childDefinition = ''Array''
        then \<exists>ids. get_prop (JObj kvs) attr = JArr ids
                  \<and> newval = JArr (ids @ [get_prop child ''_id''])
        else newval = get_prop child ''_id'')
    \<and> ex (Save Model (JObj (set_field attr newval kvs))) s2 = (Inr r, s3)
    \<and> get_prop (JObj (set_field attr newval kvs)) attr = newval
    \<and> w' = \<lparr>db = s3,
              calls = calls w @ [FindOne Model (by_id parentId), Create ChildModel vals,
                                 Save Model (JObj (set_field attr newval kvs))]\<rparr>)"
  (is "?L \<longleftrightarrow> ?R")
proof
  assume L: ?L
  define Q where "Q = ?R"
  have step: "\<And>Model cm CM d kvs newval s1 s2 s3 r.
      getModel T parentModelName = Some (Registered Model) \<Longrightarrow>
      truthy parentId \<Longrightarrow>
      getReferenceModelName Model attr = Some cm \<Longrightarrow>
      cm \<noteq> [] \<Longrightarrow>
      getModel T cm = Some (Registered CM) \<Longrightarrow>
      getReferenceDefinition Model attr = Some d \<Longrightarrow>
      ex (FindOne Model (by_id parentId)) (db w) = (Inr (JObj kvs), s1) \<Longrightarrow>
      ex (Create CM vals) s1 = (Inr child, s2) \<Longrightarrow>
      truthy child \<Longrightarrow>
      truthy (get_prop child ''_id'') \<Longrightarrow>
      (if path_instance d = ''Array''
        then \<exists>ids. get_prop (JObj kvs) attr = JArr ids
                  \<and> newval = JArr (ids @ [get_prop child ''_id''])
        else newval = get_prop child ''_id'') \<Longrightarrow>
      ex (Save Model (JObj (set_field attr newval kvs))) s2 = (Inr r, s3) \<Longrightarrow>
      w' = \<lparr>db = s3,
              calls = calls w @ [FindOne Model (by_id parentId), Create CM vals,
                                 Save Model (JObj (set_field attr newval kvs))]\<rparr> \<Longrightarrow> Q"
    unfolding Q_def using get_prop_set_field by blast
  have Q
    using L
    apply (clarsimp simp: createAssociation_def split: option.splits if_splits handle.splits)
    apply (frule ref_def_exists)
    apply (clarsimp dest!: then_p_Inr exec_Inr split: if_splits)
    apply (clarsimp simp: create_def dest!: then_p_Inr exec_Inr of_result_Inr resolve_Inr
        split: if_splits option.splits handle.splits)
    apply (auto simp: create_def dest!: then_p_Inr exec_Inr of_result_Inr resolve_Inr push_Inr
        set_prop_Inr split: sum.splits if_splits option.splits handle.splits intro: step)
    done
  then show ?R
    by (simp only: Q_def)
next
  assume ?R
  then obtain Model childModelName ChildModel childDefinition kvs newval s1 s2 s3 r where
    a: "getModel T parentModelName = Some (Registered Model)" "truthy parentId"
      "getReferenceModelName Model attr = Some childModelName" "childModelName \<noteq> []"
      "getModel T childModelName = Some (Registered ChildModel)"
      "getReferenceDefinition Model attr = Some childDefinition"
    and b: "ex (FindOne Model (by_id parentId)) (db w) = (Inr (JObj kvs), s1)"
      "ex (Create ChildModel vals) s1 = (Inr child, s2)"
      "truthy child" "truthy (get_prop child ''_id'')"
    and n: "if path_instance childDefinition = ''Array''
        then \<exists>ids. get_prop (JObj kvs) attr = JArr ids
                  \<and> newval = JArr (ids @ [get_prop child ''_id''])
        else newval = get_prop child ''_id''"
    and c: "ex (Save Model (JObj (set_field attr newval kvs))) s2 = (Inr r, s3)"
      "w' = \<lparr>db = s3,
              calls = calls w @ [FindOne Model (by_id parentId), Create ChildModel vals,
                                 Save Model (JObj (set_field attr newval kvs))]\<rparr>"
    by blast
  have m: "(if path_instance childDefinition = ''Array''
            then (case push (get_prop (JObj kvs) attr) (get_prop child ''_id'') of
                    Inl e \<Rightarrow> Inl e
                  | Inr arr \<Rightarrow> set_prop (JObj kvs) attr arr)
            else set_prop (JObj kvs) attr (get_prop child ''_id''))
          = Inr (JObj (set_field attr newval kvs))"
    using n by (auto split: if_splits simp del: get_prop.simps)
  show ?L
    using a b c m
    by (simp add: createAssociation_def create_def then_p_def exec_def of_result_def
        resolve_def del: get_prop.simps set_prop.simps)
qed

theorem createAssociation_appends_or_overwrites_witness:
  "createAssociation demo_service mem_store ''Parent'' (JNum 1) ''tags'' (tag 40) None
     (start demo_db)
     = (Inr (tag 40),
        \<lparr>db = [(''Parent'',
                 [JObj [(''_id'', JNum 1), (''tags'', JArr [JNum 10, JNum 20, JNum 30, JNum 40])]]),
                (''Tag'', [tag 10, tag 20, tag 30, tag 40])],
           calls = [FindOne Parent (by_id (JNum 1)), Create Tag (tag 40),
                    Save Parent
                      (JObj [(''_id'', JNum 1),
                             (''tags'', JArr [JNum 10, JNum 20, JNum 30, JNum 40])])]\<rparr>)
   \<and> createAssociation demo_service mem_store ''Parent'' (JNum 3) ''profile''
       (JObj [(''_id'', JNum 8)]) None (start profiled_db)
     = (Inr (JObj [(''_id'', JNum 8)]),
        \<lparr>db = [(''Parent'', [JObj [(''_id'', JNum 3), (''profile'', JNum 8)]]),
                (''Profile'', [JObj [(''_id'', JNum 7)], JObj [(''_id'', JNum 8)]])],
           calls = [FindOne Parent (by_id (JNum 3)), Create Profile (JObj [(''_id'', JNum 8)]),
                    Save Parent (JObj [(''_id'', JNum 3), (''profile'', JNum 8)])]\<rparr>)"
proof -
  have arr: "createAssociation demo_service mem_store ''Parent'' (JNum 1) ''tags'' (tag 40) None
       (start demo_db)
     = (Inr (tag 40),
        \<lparr>db = [(''Parent'',
                 [JObj [(''_id'', JNum 1), (''tags'', JArr [JNum 10, JNum 20, JNum 30, JNum 40])]]),
                (''Tag'', [tag 10, tag 20, tag 30, tag 40])],
           calls = [FindOne Parent (by_id (JNum 1)), Create Tag (tag 40),
                    Save Parent
                      (JObj [(''_id'', JNum 1),
                             (''tags'', JArr [JNum 10, JNum 20, JNum 30, JNum 40])])]\<rparr>)"
    apply (rule iffD2 [OF createAssociation_appends_or_overwrites])
    apply (rule exI [of _ Parent], rule exI [of _ "''Tag''"], rule exI [of _ Tag])
    apply (rule exI [of _ "\<lparr>path_instance = ''Array'', options_ref = JStr ''Tag''\<rparr>"])
    apply (rule exI [of _ "[(''_id'', JNum 1), (''tags'', JArr [JNum 10, JNum 20, JNum 30])]"])
    apply (rule exI [of _ "JArr ([JNum 10, JNum 20, JNum 30] @ [get_prop (tag 40) ''_id''])"])
    apply (rule exI [of _ demo_db])
    apply (rule exI [of _ "set_docs ''Tag'' [tag 10, tag 20, tag 30, tag 40] demo_db"])
    apply (rule exI [of _ "[(''Parent'',
             [JObj [(''_id'', JNum 1), (''tags'', JArr [JNum 10, JNum 20, JNum 30, JNum 40])]]),
            (''Tag'', [tag 10, tag 20, tag 30, tag 40])]"])
    apply (rule exI [of _ "JObj [(''_id'', JNum 1), (''tags'', JArr [JNum 10, JNum 20, JNum 30, JNum 40])]"])
    apply (intro conjI)
                 apply ((simp add: tag_def; fail) | code_simp)+
    done
  have single: "createAssociation demo_service mem_store ''Parent'' (JNum 3) ''profile''
       (JObj [(''_id'', JNum 8)]) None (start profiled_db)
     = (Inr (JObj [(''_id'', JNum 8)]),
        \<lparr>db = [(''Parent'', [JObj [(''_id'', JNum 3), (''profile'', JNum 8)]]),
                (''Profile'', [JObj [(''_id'', JNum 7)], JObj [(''_id'', JNum 8)]])],
           calls = [FindOne Parent (by_id (JNum 3)), Create Profile (JObj [(''_id'', JNum 8)]),
                    Save Parent (JObj [(''_id'', JNum 3), (''profile'', JNum 8)])]\<rparr>)"
    apply (rule iffD2 [OF createAssociation_appends_or_overwrites])
    apply (rule exI [of _ Parent], rule exI [of _ "''Profile''"], rule exI [of _ Profile])
    apply (rule exI [of _ "\<lparr>path_instance = ''ObjectID'', options_ref = JStr ''Profile''\<rparr>"])
    apply (rule exI [of _ "[(''_id'', JNum 3), (''profile'', JNum 7)]"])
    apply (rule exI [of _ "get_prop (JObj [(''_id'', JNum 8)]) ''_id''"])
    apply (rule exI [of _ profiled_db])
    apply (rule exI [of _ "set_docs ''Profile'' [JObj [(''_id'', JNum 7)], JObj [(''_id'', JNum 8)]] profiled_db"])
    apply (rule exI [of _ "[(''Parent'', [JObj [(''_id'', JNum 3), (''profile'', JNum 8)]]),
            (''Profile'', [JObj [(''_id'', JNum 7)], JObj [(''_id'', JNum 8)]])]"])
    apply (rule exI [of _ "JObj [(''_id'', JNum 3), (''profile'', JNum 8)]"])
    apply (intro conjI)
                 apply ((simp; fail) | code_simp)+
    done
  from arr single show ?thesis
    by (rule conjI)
qed

section \<open>updateAssociation\<close>

text \<open>
  Claim C9, as stated: after every successful updateAssociation the reference field of the
  parent is unchanged.  On a model that refers to itself it is not: node 1 lists node 2 as
  its child, and \<^verbatim>\<open>updateAssociation('Node', 1, 'children', {_id: 1}, {children: []})\<close>
  resolves, its update of the child model reaches node 1 itself, and the
  \<^verbatim>\<open>children\<close> of node 1 go from \<^verbatim>\<open>[2]\<close> to \<^verbatim>\<open>[]\<close>.
\<close>

theorem updateAssociation_changes_own_parent_counterexample:
  "docs_of node_db Node
     = [JObj [(''_id'', JNum 1), (''children'', JArr [JNum 2])],
        JObj [(''_id'', JNum 2), (''children'', JArr [])]]
   \<and> updateAssociation demo_service mem_store ''Node'' (JNum 1) ''children''
       (JObj [(''_id'', JNum 1)]) (JObj [(''children'', JArr [])]) None (start node_db)
     = (Inr (JArr [JObj [(''_id'', JNum 1), (''children'', JArr [])]]),
        \<lparr>db = [(''Node'',
                 [JObj [(''_id'', JNum 1), (''children'', JArr [])],
                  JObj [(''_id'', JNum 2), (''children'', JArr [])]])],
           calls = [FindOne Node (by_id (JNum 1)),
                    Find Node (JObj [(''_id'', JNum 1)]) (Some ''_id'') None,
                    Update Node (id_in (JArr [JObj [(''_id'', JNum 1)]]))
                      (JObj [(''children'', JArr [])]),
                    Find Node (id_in (JArr [JObj [(''_id'', JNum 1)]])) None None]\<rparr>)"
  by code_simp

text \<open>
  Claim C9, amended.  updateAssociation never re-persists the parent record.  It resolves
  exactly when the parent model resolves, the reference resolves, and the store finds the
  parent, read once; then either the reference of the parent is empty, nothing else is
  called and the result is \<^verbatim>\<open>null\<close>, or the calls that follow are, on the child model,
  the selection of ids, one update of the records of that id set with the given values,
  and the second read, whose reply is the result.  So whatever part \<open>obs\<close> of the store
  is left unchanged by reads and by an update of the child model with these values is
  unchanged after a successful updateAssociation; that is the reference field of the
  parent, unless the update of the child model itself changes it.
\<close>

theorem updateAssociation_never_saves_parent:
  assumes "\<And>M q s. obs (snd (ex (FindOne M q) s)) = obs s"
    and "\<And>M q sel lim s. obs (snd (ex (Find M q sel lim) s)) = obs s"
    and "\<And>Model childModelName ChildModel q s.
           getModel T parentModelName = Some (Registered Model) \<Longrightarrow>
           getReferenceModelName Model attr = Some childModelName \<Longrightarrow>
           getModel T childModelName = Some (Registered ChildModel) \<Longrightarrow>
           obs (snd (ex (Update ChildModel q vals) s)) = obs s"
  shows "(updateAssociation T ex parentModelName parentId attr criteria vals opts w = (Inr res, w')
          \<longleftrightarrow>
          (\<exists>Model childModelName parent s1.
      getModel T parentModelName = Some (Registered Model)
    \<and> truthy parentId
    \<and> getReferenceModelName Model attr = Some childModelName
    \<and> childModelName \<noteq> []
    \<and> ex (FindOne Model (by_id parentId)) (db w) = (Inr parent, s1)
    \<and> truthy parent
    \<and> ((\<exists>ChildModel ids s2 r s3 s4.
           truthy (get_prop parent attr)
         \<and> getModel T childModelName = Some (Registered ChildModel)
         \<and> ex (Find ChildModel
                  (extend_js
                     (id_in (if isArray (get_prop parent attr) then get_prop parent attr
                             else JArr [get_prop parent attr]))
                     (or_empty criteria))
                  (Some ''_id'') (query_limit T None)) s1 = (Inr ids, s2)
         \<and> ex (Update ChildModel (id_in ids) vals) s2 = (Inr r, s3)
         \<and> ex (Find ChildModel (id_in ids) None None) s3 = (Inr res, s4)
         \<and> w' = \<lparr>db = s4,
                   calls = calls w
                     @ [FindOne Model (by_id parentId),
                        Find ChildModel
                          (extend_js
                     (id_in (if isArray (get_prop parent attr) then get_prop parent attr
                             else JArr [get_prop parent attr]))
                     (or_empty criteria))
                          (Some ''_id'') (query_limit T None),
                        Update ChildModel (id_in ids) vals,
                        Find ChildModel (id_in ids) None None]\<rparr>)
       \<or> (\<not> truthy (get_prop parent attr) \<and> res = JNull
           \<and> w' = \<lparr>db = s1, calls = calls w @ [FindOne Model (by_id parentId)]\<rparr>))))
       \<and> (updateAssociation T ex parentModelName parentId attr criteria vals opts w = (Inr res, w')
          \<longrightarrow> obs (db w') = obs (db w))"
  (is "(?L \<longleftrightarrow> ?R) \<and> (?L \<longrightarrow> ?F)")
proof -
  have LR: "?R" if L: ?L
  proof -
    define Q where "Q = ?R"
    have short: "\<And>Model cm parent s1.
        getModel T parentModelName = Some (Registered Model) \<Longrightarrow> truthy parentId \<Longrightarrow>
        getReferenceModelName Model attr = Some cm \<Longrightarrow> cm \<noteq> [] \<Longrightarrow>
        ex (FindOne Model (by_id parentId)) (db w) = (Inr parent, s1) \<Longrightarrow> truthy parent \<Longrightarrow>
        \<not> truthy (get_prop parent attr) \<Longrightarrow> res = JNull \<Longrightarrow>
        w' = \<lparr>db = s1, calls = calls w @ [FindOne Model (by_id parentId)]\<rparr> \<Longrightarrow> Q"
      unfolding Q_def by blast
    have long: "\<And>Model cm parent s1 CM ids s2 r s3 s4.
        getModel T parentModelName = Some (Registered Model) \<Longrightarrow> truthy parentId \<Longrightarrow>
        getReferenceModelName Model attr = Some cm \<Longrightarrow> cm \<noteq> [] \<Longrightarrow>
        ex (FindOne Model (by_id parentId)) (db w) = (Inr parent, s1) \<Longrightarrow> truthy parent \<Longrightarrow>
        truthy (get_prop parent attr) \<Longrightarrow>
        getModel T cm = Some (Registered CM) \<Longrightarrow>
        ex (Find CM
              (extend_js
                     (id_in (if isArray (get_prop parent attr) then get_prop parent attr
                             else JArr [get_prop parent attr]))
                     (or_empty criteria))
              (Some ''_id'') (query_limit T None)) s1 = (Inr ids, s2) \<Longrightarrow>
        ex (Update CM (id_in ids) vals) s2 = (Inr r, s3) \<Longrightarrow>
        ex (Find CM (id_in ids) None None) s3 = (Inr res, s4) \<Longrightarrow>
        w' = \<lparr>db = s4,
               calls = calls w
                 @ [FindOne Model (by_id parentId),
                    Find CM
                      (extend_js
                     (id_in (if isArray (get_prop parent attr) then get_prop parent attr
                             else JArr [get_prop parent attr]))
                     (or_empty criteria))
                      (Some ''_id'') (query_limit T None),
                    Update CM (id_in ids) vals,
                    Find CM (id_in ids) None None]\<rparr> \<Longrightarrow> Q"
      unfolding Q_def by blast
    have Q
      using L
      apply (clarsimp simp: updateAssociation_def split: option.splits if_splits handle.splits)
      apply (clarsimp simp: find_op_def findOne_set_def defaults_findOne_def or_default_def
          dest!: then_p_Inr exec_Inr split: if_splits option.splits handle.splits)
      apply (auto simp: update_def isPlainObject_extend_js
          dest!: then_p_Inr exec_Inr resolve_Inr split: if_splits option.splits handle.splits
          intro: short long)
      done
    then show ?thesis
      by (simp only: Q_def)
  qed
  have RL: "?L" if R: ?R
  proof -
    from R obtain Model childModelName parent s1 where
      m: "getModel T parentModelName = Some (Registered Model)" "truthy parentId"
        "getReferenceModelName Model attr = Some childModelName" "childModelName \<noteq> []"
      and l: "ex (FindOne Model (by_id parentId)) (db w) = (Inr parent, s1)" "truthy parent"
      and alt: "(\<exists>ChildModel ids s2 r s3 s4.
           truthy (get_prop parent attr)
         \<and> getModel T childModelName = Some (Registered ChildModel)
         \<and> ex (Find ChildModel
                  (extend_js
                     (id_in (if isArray (get_prop parent attr) then get_prop parent attr
                             else JArr [get_prop parent attr]))
                     (or_empty criteria))
                  (Some ''_id'') (query_limit T None)) s1 = (Inr ids, s2)
         \<and> ex (Update ChildModel (id_in ids) vals) s2 = (Inr r, s3)
         \<and> ex (Find ChildModel (id_in ids) None None) s3 = (Inr res, s4)
         \<and> w' = \<lparr>db = s4,
                   calls = calls w
                     @ [FindOne Model (by_id parentId),
                        Find ChildModel
                          (extend_js
                     (id_in (if isArray (get_prop parent attr) then get_prop parent attr
                             else JArr [get_prop parent attr]))
                     (or_empty criteria))
                          (Some ''_id'') (query_limit T None),
                        Update ChildModel (id_in ids) vals,
                        Find ChildModel (id_in ids) None None]\<rparr>)
       \<or> (\<not> truthy (get_prop parent attr) \<and> res = JNull
           \<and> w' = \<lparr>db = s1, calls = calls w @ [FindOne Model (by_id parentId)]\<rparr>)"
      by blast
    have p: "find_op T ex parentModelName parentId (defaults_findOne (or_default opts)) w
        = (Inr parent, \<lparr>db = s1, calls = calls w @ [FindOne Model (by_id parentId)]\<rparr>)"
      using m(1) l(1)
      by (simp add: find_op_def findOne_set_def defaults_findOne_def or_default_def exec_def
          split: option.splits)
    from alt show ?thesis
    proof (elim disjE exE conjE)
      fix ChildModel ids s2 r s3 s4
      assume t: "truthy (get_prop parent attr)"
        and c: "getModel T childModelName = Some (Registered ChildModel)"
        and f1: "ex (Find ChildModel
                  (extend_js
                     (id_in (if isArray (get_prop parent attr) then get_prop parent attr
                             else JArr [get_prop parent attr]))
                     (or_empty criteria))
                  (Some ''_id'') (query_limit T None)) s1 = (Inr ids, s2)"
        and u: "ex (Update ChildModel (id_in ids) vals) s2 = (Inr r, s3)"
        and f2: "ex (Find ChildModel (id_in ids) None None) s3 = (Inr res, s4)"
        and w': "w' = \<lparr>db = s4,
                   calls = calls w
                     @ [FindOne Model (by_id parentId),
                        Find ChildModel
                          (extend_js
                     (id_in (if isArray (get_prop parent attr) then get_prop parent attr
                             else JArr [get_prop parent attr]))
                     (or_empty criteria))
                          (Some ''_id'') (query_limit T None),
                        Update ChildModel (id_in ids) vals,
                        Find ChildModel (id_in ids) None None]\<rparr>"
      have "update T ex childModelName
              (extend_js
                     (id_in (if isArray (get_prop parent attr) then get_prop parent attr
                             else JArr [get_prop parent attr]))
                     (or_empty criteria))
              vals None \<lparr>db = s1, calls = calls w @ [FindOne Model (by_id parentId)]\<rparr>
            = (Inr res, w')"
        using c f1 u f2 w'
        by (simp add: update_def then_p_def exec_def isPlainObject_extend_js)
      then show ?thesis
        using m l(2) t p
        by (simp add: updateAssociation_def then_p_def)
    next
      assume "\<not> truthy (get_prop parent attr)" "res = JNull"
        "w' = \<lparr>db = s1, calls = calls w @ [FindOne Model (by_id parentId)]\<rparr>"
      then show ?thesis
        using m l(2) p
        by (simp add: updateAssociation_def then_p_def resolve_def)
    qed
  qed
  have F: "?F" if L: ?L
  proof -
    from LR [OF L] obtain Model childModelName parent s1 where
      m: "getModel T parentModelName = Some (Registered Model)"
        "getReferenceModelName Model attr = Some childModelName"
      and l: "ex (FindOne Model (by_id parentId)) (db w) = (Inr parent, s1)"
      and alt: "(\<exists>ChildModel ids s2 r s3 s4.
           truthy (get_prop parent attr)
         \<and> getModel T childModelName = Some (Registered ChildModel)
         \<and> ex (Find ChildModel
                  (extend_js
                     (id_in (if isArray (get_prop parent attr) then get_prop parent attr
                             else JArr [get_prop parent attr]))
                     (or_empty criteria))
                  (Some ''_id'') (query_limit T None)) s1 = (Inr ids, s2)
         \<and> ex (Update ChildModel (id_in ids) vals) s2 = (Inr r, s3)
         \<and> ex (Find ChildModel (id_in ids) None None) s3 = (Inr res, s4)
         \<and> w' = \<lparr>db = s4,
                   calls = calls w
                     @ [FindOne Model (by_id parentId),
                        Find ChildModel
                          (extend_js
                     (id_in (if isArray (get_prop parent attr) then get_prop parent attr
                             else JArr [get_prop parent attr]))
                     (or_empty criteria))
                          (Some ''_id'') (query_limit T None),
                        Update ChildModel (id_in ids) vals,
                        Find ChildModel (id_in ids) None None]\<rparr>)
       \<or> (\<not> truthy (get_prop parent attr) \<and> res = JNull
           \<and> w' = \<lparr>db = s1, calls = calls w @ [FindOne Model (by_id parentId)]\<rparr>)"
      by blast
    have o1: "obs s1 = obs (db w)"
      using assms(1) l by (metis snd_conv)
    from alt have "obs (db w') = obs s1"
    proof (elim disjE exE conjE)
      fix ChildModel ids s2 r s3 s4
      assume c: "getModel T childModelName = Some (Registered ChildModel)"
        and f1: "ex (Find ChildModel
                  (extend_js
                     (id_in (if isArray (get_prop parent attr) then get_prop parent attr
                             else JArr [get_prop parent attr]))
                     (or_empty criteria))
                  (Some ''_id'') (query_limit T None)) s1 = (Inr ids, s2)"
        and u: "ex (Update ChildModel (id_in ids) vals) s2 = (Inr r, s3)"
        and f2: "ex (Find ChildModel (id_in ids) None None) s3 = (Inr res, s4)"
        and w': "w' = \<lparr>db = s4,
                   calls = calls w
                     @ [FindOne Model (by_id parentId),
                        Find ChildModel
                          (extend_js
                     (id_in (if isArray (get_prop parent attr) then get_prop parent attr
                             else JArr [get_prop parent attr]))
                     (or_empty criteria))
                          (Some ''_id'') (query_limit T None),
                        Update ChildModel (id_in ids) vals,
                        Find ChildModel (id_in ids) None None]\<rparr>"
      have "obs s2 = obs s1"
        using assms(2) f1 by (metis snd_conv)
      moreover have "obs s3 = obs s2"
        using assms(3) [OF m c] u by (metis snd_conv)
      moreover have "obs s4 = obs s3"
        using assms(2) f2 by (metis snd_conv)
      ultimately show ?thesis
        using w' by simp
    next
      assume "w' = \<lparr>db = s1, calls = calls w @ [FindOne Model (by_id parentId)]\<rparr>"
      then show ?thesis
        by simp
    qed
    with o1 show ?thesis
      by simp
  qed
  from LR RL F show ?thesis
    by blast
qed

theorem updateAssociation_never_saves_parent_witness:
  "updateAssociation demo_service mem_store ''Parent'' (JNum 1) ''tags'' (JObj [])
     (JObj [(''status'', JStr ''x'')]) None (start demo_db)
     = (Inr (JArr [JObj [(''_id'', JNum 10), (''value'', JNum 10), (''status'', JStr ''x'')],
                   JObj [(''_id'', JNum 20), (''value'', JNum 20), (''status'', JStr ''x'')],
                   JObj [(''_id'', JNum 30), (''value'', JNum 30), (''status'', JStr ''x'')]]),
        \<lparr>db = [(''Parent'',
                 [JObj [(''_id'', JNum 1), (''tags'', JArr [JNum 10, JNum 20, JNum 30])]]),
                (''Tag'',
                 [JObj [(''_id'', JNum 10), (''value'', JNum 10), (''status'', JStr ''x'')],
                  JObj [(''_id'', JNum 20), (''value'', JNum 20), (''status'', JStr ''x'')],
                  JObj [(''_id'', JNum 30), (''value'', JNum 30), (''status'', JStr ''x'')]])],
           calls = [FindOne Parent (by_id (JNum 1)),
                    Find Tag (id_in (JArr [JNum 10, JNum 20, JNum 30])) (Some ''_id'') None,
                    Update Tag
                      (id_in (JArr [JObj [(''_id'', JNum 10)], JObj [(''_id'', JNum 20)],
                                    JObj [(''_id'', JNum 30)]]))
                      (JObj [(''status'', JStr ''x'')]),
                    Find Tag
                      (id_in (JArr [JObj [(''_id'', JNum 10)], JObj [(''_id'', JNum 20)],
                                    JObj [(''_id'', JNum 30)]]))
                      None None]\<rparr>)
   \<and> (\<forall>M q s. docs_of (snd (mem_store (FindOne M q) s)) Parent = docs_of s Parent)
   \<and> (\<forall>M q sel lim s. docs_of (snd (mem_store (Find M q sel lim) s)) Parent = docs_of s Parent)
   \<and> (\<forall>q s. docs_of (snd (mem_store (Update Tag q (JObj [(''status'', JStr ''x'')])) s)) Parent
              = docs_of s Parent)
   \<and> docs_of
        [(''Parent'', [JObj [(''_id'', JNum 1), (''tags'', JArr [JNum 10, JNum 20, JNum 30])]]),
         (''Tag'',
          [JObj [(''_id'', JNum 10), (''value'', JNum 10), (''status'', JStr ''x'')],
           JObj [(''_id'', JNum 20), (''value'', JNum 20), (''status'', JStr ''x'')],
           JObj [(''_id'', JNum 30), (''value'', JNum 30), (''status'', JStr ''x'')]])]
        Parent
       = docs_of (db (start demo_db)) Parent"
proof -
  have h: "updateAssociation demo_service mem_store ''Parent'' (JNum 1) ''tags'' (JObj [])
     (JObj [(''status'', JStr ''x'')]) None (start demo_db)
     = (Inr (JArr [JObj [(''_id'', JNum 10), (''value'', JNum 10), (''status'', JStr ''x'')],
                   JObj [(''_id'', JNum 20), (''value'', JNum 20), (''status'', JStr ''x'')],
                   JObj [(''_id'', JNum 30), (''value'', JNum 30), (''status'', JStr ''x'')]]),
        \<lparr>db = [(''Parent'',
                 [JObj [(''_id'', JNum 1), (''tags'', JArr [JNum 10, JNum 20, JNum 30])]]),
                (''Tag'',
                 [JObj [(''_id'', JNum 10), (''value'', JNum 10), (''status'', JStr ''x'')],
                  JObj [(''_id'', JNum 20), (''value'', JNum 20), (''status'', JStr ''x'')],
                  JObj [(''_id'', JNum 30), (''value'', JNum 30), (''status'', JStr ''x'')]])],
           calls = [FindOne Parent (by_id (JNum 1)),
                    Find Tag (id_in (JArr [JNum 10, JNum 20, JNum 30])) (Some ''_id'') None,
                    Update Tag
                      (id_in (JArr [JObj [(''_id'', JNum 10)], JObj [(''_id'', JNum 20)],
                                    JObj [(''_id'', JNum 30)]]))
                      (JObj [(''status'', JStr ''x'')]),
                    Find Tag
                      (id_in (JArr [JObj [(''_id'', JNum 10)], JObj [(''_id'', JNum 20)],
                                    JObj [(''_id'', JNum 30)]]))
                      None None]\<rparr>)"
    by code_simp
  have r1: "\<And>M q s. docs_of (snd (mem_store (FindOne M q) s)) Parent = docs_of s Parent"
    by simp
  have r2: "\<And>M q sel lim s. docs_of (snd (mem_store (Find M q sel lim) s)) Parent = docs_of s Parent"
    by simp
  have u0: "\<And>q s. docs_of (snd (mem_store (Update Tag q (JObj [(''status'', JStr ''x'')])) s)) Parent
              = docs_of s Parent"
    by (simp add: docs_of_set_docs_other Tag_def Parent_def)
  have p: "getModel demo_service ''Parent'' = Some (Registered Parent)"
    and c: "getReferenceModelName Parent ''tags'' = Some ''Tag''"
    and t: "getModel demo_service ''Tag'' = Some (Registered Tag)"
    by code_simp+
  have u: "\<And>Model childModelName ChildModel q s.
           getModel demo_service ''Parent'' = Some (Registered Model) \<Longrightarrow>
           getReferenceModelName Model ''tags'' = Some childModelName \<Longrightarrow>
           getModel demo_service childModelName = Some (Registered ChildModel) \<Longrightarrow>
           docs_of (snd (mem_store (Update ChildModel q (JObj [(''status'', JStr ''x'')])) s)) Parent
             = docs_of s Parent"
    using u0 p c t by auto
  have "updateAssociation demo_service mem_store ''Parent'' (JNum 1) ''tags'' (JObj [])
     (JObj [(''status'', JStr ''x'')]) None (start demo_db)
     = (Inr (JArr [JObj [(''_id'', JNum 10), (''value'', JNum 10), (''status'', JStr ''x'')],
                   JObj [(''_id'', JNum 20), (''value'', JNum 20), (''status'', JStr ''x'')],
                   JObj [(''_id'', JNum 30), (''value'', JNum 30), (''status'', JStr ''x'')]]),
        \<lparr>db = [(''Parent'',
                 [JObj [(''_id'', JNum 1), (''tags'', JArr [JNum 10, JNum 20, JNum 30])]]),
                (''Tag'',
                 [JObj [(''_id'', JNum 10), (''value'', JNum 10), (''status'', JStr ''x'')],
                  JObj [(''_id'', JNum 20), (''value'', JNum 20), (''status'', JStr ''x'')],
                  JObj [(''_id'', JNum 30), (''value'', JNum 30), (''status'', JStr ''x'')]])],
           calls = [FindOne Parent (by_id (JNum 1)),
                    Find Tag (id_in (JArr [JNum 10, JNum 20, JNum 30])) (Some ''_id'') None,
                    Update Tag
                      (id_in (JArr [JObj [(''_id'', JNum 10)], JObj [(''_id'', JNum 20)],
                                    JObj [(''_id'', JNum 30)]]))
                      (JObj [(''status'', JStr ''x'')]),
                    Find Tag
                      (id_in (JArr [JObj [(''_id'', JNum 10)], JObj [(''_id'', JNum 20)],
                                    JObj [(''_id'', JNum 30)]]))
                      None None]\<rparr>)
     \<longrightarrow> docs_of (db \<lparr>db = [(''Parent'',
                 [JObj [(''_id'', JNum 1), (''tags'', JArr [JNum 10, JNum 20, JNum 30])]]),
                (''Tag'',
                 [JObj [(''_id'', JNum 10), (''value'', JNum 10), (''status'', JStr ''x'')],
                  JObj [(''_id'', JNum 20), (''value'', JNum 20), (''status'', JStr ''x'')],
                  JObj [(''_id'', JNum 30), (''value'', JNum 30), (''status'', JStr ''x'')]])],
           calls = [FindOne Parent (by_id (JNum 1)),
                    Find Tag (id_in (JArr [JNum 10, JNum 20, JNum 30])) (Some ''_id'') None,
                    Update Tag
                      (id_in (JArr [JObj [(''_id'', JNum 10)], JObj [(''_id'', JNum 20)],
                                    JObj [(''_id'', JNum 30)]]))
                      (JObj [(''status'', JStr ''x'')]),
                    Find Tag
                      (id_in (JArr [JObj [(''_id'', JNum 10)], JObj [(''_id'', JNum 20)],
                                    JObj [(''_id'', JNum 30)]]))
                      None None]\<rparr>) Parent = docs_of (db (start demo_db)) Parent"
    by (rule updateAssociation_never_saves_parent
          [where obs = "\<lambda>s. docs_of s Parent", THEN conjunct2])
      (rule r1, rule r2, (rule u; assumption))
  with h have "docs_of
        [(''Parent'', [JObj [(''_id'', JNum 1), (''tags'', JArr [JNum 10, JNum 20, JNum 30])]]),
         (''Tag'',
          [JObj [(''_id'', JNum 10), (''value'', JNum 10), (''status'', JStr ''x'')],
           JObj [(''_id'', JNum 20), (''value'', JNum 20), (''status'', JStr ''x'')],
           JObj [(''_id'', JNum 30), (''value'', JNum 30), (''status'', JStr ''x'')]])]
        Parent
       = docs_of (db (start demo_db)) Parent"
    by simp
  with h r1 r2 u0 show ?thesis
    by blast
qed

section \<open>destroyAssociation\<close>

text \<open>
  Claim C10.  destroyAssociation has no short-circuit on an empty reference: for every
  parent whose reference field is empty or absent (any falsy value, such as \<^verbatim>\<open>null\<close>,
  which is no array), it calls destroy on the child model with that value as the
  primary-key criteria (a \<^verbatim>\<open>findOne\<close> and a \<^verbatim>\<open>remove\<close> on \<^verbatim>\<open>{_id: ref}\<close>), then sets
  the reference field of the parent to \<^verbatim>\<open>null\<close> and saves the parent.
\<close>

theorem destroyAssociation_empty_single_reference:
  assumes "getModel T parentModelName = Some (Registered Model)"
    and "truthy parentId"
    and "\<not> isPlainObject parentId"
    and "getReferenceModelName Model attr = Some childModelName"
    and "childModelName \<noteq> []"
    and "getModel T childModelName = Some (Registered ChildModel)"
    and "ex (FindOne Model (by_id parentId)) (db w) = (Inr (JObj kvs), s1)"
    and "get_prop (JObj kvs) attr = ref"
    and "\<not> truthy ref"
    and "ex (FindOne ChildModel (by_id ref)) s1 = (Inr r1, s2)"
    and "ex (Remove ChildModel (by_id ref)) s2 = (Inr r2, s3)"
    and "ex (Save Model (JObj (set_field attr JNull kvs))) s3 = (Inr r3, s4)"
  shows "destroyAssociation T ex parentModelName parentId attr criteria opts w
           = (Inr JUndefined,
              \<lparr>db = s4,
                 calls = calls w
                   @ [FindOne Model (by_id parentId),
                      FindOne ChildModel (by_id ref),
                      Remove ChildModel (by_id ref),
                      Save Model (JObj (set_field attr JNull kvs))]\<rparr>)
       \<and> destroy T ex childModelName ref (or_default opts)
            \<lparr>db = s1, calls = calls w @ [FindOne Model (by_id parentId)]\<rparr>
           = (Inr r1,
              \<lparr>db = s3,
                 calls = calls w
                   @ [FindOne Model (by_id parentId),
                      FindOne ChildModel (by_id ref),
                      Remove ChildModel (by_id ref)]\<rparr>)"
proof -
  have np: "\<not> isPlainObject ref"
    using assms(9) by (cases ref) simp_all
  have d: "destroy T ex childModelName ref (or_default opts)
            \<lparr>db = s1, calls = calls w @ [FindOne Model (by_id parentId)]\<rparr>
           = (Inr r1,
              \<lparr>db = s3,
                 calls = calls w
                   @ [FindOne Model (by_id parentId),
                      FindOne ChildModel (by_id ref),
                      Remove ChildModel (by_id ref)]\<rparr>)"
    using assms(6,10,11) np
    by (simp add: destroy_def then_p_def exec_def resolve_def)
  have p: "find_op T ex parentModelName parentId (or_default opts) w
      = (Inr (JObj kvs), \<lparr>db = s1, calls = calls w @ [FindOne Model (by_id parentId)]\<rparr>)"
    using assms(1,3,7) by (simp add: find_op_def exec_def)
  have "destroyAssociation T ex parentModelName parentId attr criteria opts w
           = (Inr JUndefined,
              \<lparr>db = s4,
                 calls = calls w
                   @ [FindOne Model (by_id parentId),
                      FindOne ChildModel (by_id ref),
                      Remove ChildModel (by_id ref),
                      Save Model (JObj (set_field attr JNull kvs))]\<rparr>)"
    using assms(1,2,4,5,8,9,12) p d
    by (cases ref) (simp_all add: destroyAssociation_def then_p_def exec_def resolve_def
        of_result_def del: get_prop.simps)
  with d show ?thesis
    by blast
qed


theorem destroyAssociation_empty_single_reference_witness:
  "getModel demo_service ''Parent'' = Some (Registered Parent)
   \<and> truthy (JNum 2)
   \<and> \<not> isPlainObject (JNum 2)
   \<and> getReferenceModelName Parent ''profile'' = Some ''Profile''
   \<and> ''Profile'' \<noteq> []
   \<and> getModel demo_service ''Profile'' = Some (Registered Profile)
   \<and> mem_store (FindOne Parent (by_id (JNum 2))) (db (start orphan_db))
       = (Inr (JObj [(''_id'', JNum 2), (''profile'', JNull)]), orphan_db)
   \<and> get_prop (JObj [(''_id'', JNum 2), (''profile'', JNull)]) ''profile'' = JNull
   \<and> \<not> truthy JNull
   \<and> mem_store (FindOne Profile (by_id JNull)) orphan_db = (Inr JNull, orphan_db)
   \<and> mem_store (Remove Profile (by_id JNull)) orphan_db
       = (Inr (JObj [(''ok'', JNum 1)]), orphan_db)
   \<and> mem_store
        (Save Parent (JObj (set_field ''profile'' JNull [(''_id'', JNum 2), (''profile'', JNull)])))
        orphan_db
       = (Inr (JObj [(''_id'', JNum 2), (''profile'', JNull)]), orphan_db)
   \<and> destroyAssociation demo_service mem_store ''Parent'' (JNum 2) ''profile'' (JObj []) None
        (start orphan_db)
       = (Inr JUndefined,
          \<lparr>db = orphan_db,
             calls = [FindOne Parent (by_id (JNum 2)),
                      FindOne Profile (by_id JNull),
                      Remove Profile (by_id JNull),
                      Save Parent (JObj [(''_id'', JNum 2), (''profile'', JNull)])]\<rparr>)"
proof -
  have h1: "getModel demo_service ''Parent'' = Some (Registered Parent)"
    by code_simp
  have h2: "truthy (JNum 2)"
    by simp
  have h3: "\<not> isPlainObject (JNum 2)"
    by simp
  have h4: "getReferenceModelName Parent ''profile'' = Some ''Profile''"
    by code_simp
  have h5: "''Profile'' \<noteq> []"
    by simp
  have h6: "getModel demo_service ''Profile'' = Some (Registered Profile)"
    by code_simp
  have h7: "mem_store (FindOne Parent (by_id (JNum 2))) (db (start orphan_db))
       = (Inr (JObj [(''_id'', JNum 2), (''profile'', JNull)]), orphan_db)"
    by code_simp
  have h8: "get_prop (JObj [(''_id'', JNum 2), (''profile'', JNull)]) ''profile'' = JNull"
    by simp
  have h9: "\<not> truthy JNull"
    by simp
  have h10: "mem_store (FindOne Profile (by_id JNull)) orphan_db = (Inr JNull, orphan_db)"
    by code_simp
  have h11: "mem_store (Remove Profile (by_id JNull)) orphan_db
       = (Inr (JObj [(''ok'', JNum 1)]), orphan_db)"
    by code_simp
  have h12: "mem_store
        (Save Parent (JObj (set_field ''profile'' JNull [(''_id'', JNum 2), (''profile'', JNull)])))
        orphan_db
       = (Inr (JObj [(''_id'', JNum 2), (''profile'', JNull)]), orphan_db)"
    by code_simp
  from destroyAssociation_empty_single_reference
    [OF h1 h2 h3 h4 h5 h6 h7 h8 h9 h10 h11 h12, where criteria = "JObj []" and opts = None]
  show ?thesis
    using h1 h2 h3 h4 h5 h6 h7 h8 h9 h10 h11 h12 by (simp add: start_def)
qed

text \<open>
  Claim C4.  On the parent \<^verbatim>\<open>{_id: 1, tags: [10, 20, 30]}\<close>,
  \<^verbatim>\<open>destroyAssociation('Parent', 1, 'tags', {value: 20})\<close> finds tag 20, destroys it and
  saves the parent with \<^verbatim>\<open>tags: [10, 30]\<close>, and resolves with \<^verbatim>\<open>[undefined]\<close>, not with
  the list \<^verbatim>\<open>[20]\<close> of the removed ids.
\<close>

theorem destroyAssociation_array_returns_undefineds:
  "destroyAssociation demo_service mem_store ''Parent'' (JNum 1) ''tags''
     (JObj [(''value'', JNum 20)]) None (start demo_db)
     = (Inr (JArr [JUndefined]),
        \<lparr>db = [(''Parent'', [JObj [(''_id'', JNum 1), (''tags'', JArr [JNum 10, JNum 30])]]),
                (''Tag'', [tag 10, tag 30])],
           calls = [FindOne Parent (by_id (JNum 1)),
                    Find Tag (JObj [(''value'', JNum 20)]) None None,
                    Find Tag (id_in (JArr [JNum 20])) None None,
                    Remove Tag (id_in (JArr [JNum 20])),
                    Save Parent (JObj [(''_id'', JNum 1), (''tags'', JArr [JNum 10, JNum 30])])]\<rparr>)"
  by code_simp

text \<open>
  On every store, a destroyAssociation that resolves never resolves with ids: its value
  is \<^verbatim>\<open>undefined\<close> or a list of \<^verbatim>\<open>undefined\<close>.
\<close>

lemma destroyAssociation_never_returns_ids:
  assumes "destroyAssociation T ex parentModelName parentId attr criteria opts w = (Inr res, w')"
  shows "res = JUndefined \<or> (\<exists>n. res = JArr (replicate n JUndefined))"
  (is ?Q)
proof -
  define Q where "Q = ?Q"
  have a: "res = JUndefined \<Longrightarrow> Q"
    by (simp add: Q_def)
  have b: "\<And>ids::jsval list. res = JArr (map (\<lambda>i. JUndefined) ids) \<Longrightarrow> Q"
    unfolding Q_def by (auto simp: map_replicate_const)
  have c: "res = JArr [] \<Longrightarrow> Q"
    unfolding Q_def by (auto intro: exI [of _ 0])
  have Q
    using assms
    apply (clarsimp simp: destroyAssociation_def split: option.splits if_splits handle.splits)
    apply (clarsimp dest!: then_p_Inr split: if_splits jsval.splits)
    apply (auto dest!: then_p_Inr resolve_Inr of_result_Inr split: if_splits intro: a b c)
    done
  then show ?thesis
    by (simp only: Q_def)
qed

section \<open>findAssociation\<close>

text \<open>
  Claim C2.  findAssociation called for the parent model \<^verbatim>\<open>Parent\<close> loads the parent
  from the model \<^verbatim>\<open>User\<close>: with the parent \<^verbatim>\<open>{_id: 1, tags: [10, 20, 30]}\<close> stored in
  \<^verbatim>\<open>Parent\<close> and no user 1, the only store call is \<^verbatim>\<open>findOne({_id: 1})\<close> on
  \<^verbatim>\<open>User\<close>, and the operation rejects with \<^verbatim>\<open>No parent record found\<close>.
\<close>

theorem findAssociation_loads_parent_from_User:
  "findAssociation demo_service mem_store ''Parent'' (JNum 1) ''tags'' (JObj []) None (start demo_db)
     = (Inl No_parent_record_found,
        \<lparr>db = demo_db, calls = [FindOne User (by_id (JNum 1))]\<rparr>)"
  by code_simp

text \<open>
  On every store: where no model is registered under the name \<^verbatim>\<open>User\<close>,
  findAssociation on a registered parent model with a resolvable reference rejects with
  \<^verbatim>\<open>No model found\<close>; where one is, the parent is asked of that model.
\<close>

lemma findAssociation_needs_User_model:
  assumes "getModel T parentModelName = Some (Registered Model)"
    and "truthy parentId"
    and "getReferenceModelName Model attr = Some childModelName"
    and "childModelName \<noteq> []"
    and "registry_get (orm T) childModelName = Some (Registered ChildModel)"
    and "getModel T ''User'' = None"
  shows "findAssociation T ex parentModelName parentId attr criteria opts w
           = (Inl No_model_found, w)"
  using assms
  by (simp add: findAssociation_def find_op_def then_p_def reject_def)

lemma findAssociation_asks_User_model:
  assumes "getModel T parentModelName = Some (Registered Model)"
    and "truthy parentId"
    and "\<not> isPlainObject parentId"
    and "getReferenceModelName Model attr = Some childModelName"
    and "childModelName \<noteq> []"
    and "registry_get (orm T) childModelName = Some (Registered ChildModel)"
    and "getModel T ''User'' = Some (Registered U)"
    and "ex (FindOne U (by_id parentId)) (db w) = (Inr JNull, s1)"
  shows "findAssociation T ex parentModelName parentId attr criteria opts w
           = (Inl No_parent_record_found,
              \<lparr>db = s1, calls = calls w @ [FindOne U (by_id parentId)]\<rparr>)"
  using assms
  by (simp add: findAssociation_def find_op_def then_p_def exec_def reject_def)

text \<open>
  Claim C8.  On the user \<^verbatim>\<open>{_id: 1, tags: []}\<close>, whose reference field is empty,
  findAssociation does not stop after loading the parent: the empty array is truthy, so
  it queries the child model \<^verbatim>\<open>Tag\<close> with \<^verbatim>\<open>{_id: {$in: []}}\<close>.
\<close>

theorem findAssociation_empty_array_queries_child:
  "findAssociation demo_service mem_store ''User'' (JNum 1) ''tags'' (JObj []) None
     (start childless_db)
     = (Inr (JArr []),
        \<lparr>db = childless_db,
           calls = [FindOne User (by_id (JNum 1)),
                    Find Tag (id_in (JArr [])) None None]\<rparr>)"
  by code_simp

text \<open>
  Where the reference field of the loaded parent is falsy (absent, \<^verbatim>\<open>null\<close>), the
  short-circuit is taken: an empty list, and no call after the load of the parent.
\<close>

lemma findAssociation_falsy_reference:
  assumes "getModel T parentModelName = Some (Registered Model)"
    and "truthy parentId"
    and "getReferenceModelName Model attr = Some childModelName"
    and "childModelName \<noteq> []"
    and "registry_get (orm T) childModelName = Some (Registered ChildModel)"
    and "find_op T ex ''User'' parentId (or_default opts) w = (Inr (JObj kvs), w1)"
    and "\<not> truthy (get_prop (JObj kvs) attr)"
  shows "findAssociation T ex parentModelName parentId attr criteria opts w = (Inr (JArr []), w1)"
  using assms
  by (simp add: findAssociation_def then_p_def resolve_def del: get_prop.simps)

text \<open>
  Where the reference field of the loaded parent is an array, the child model is queried
  with \<^verbatim>\<open>{_id: {$in: ids}}\<close> merged with the criteria, also for the empty array.
\<close>

lemma findAssociation_array_reference:
  assumes "getModel T parentModelName = Some (Registered Model)"
    and "truthy parentId"
    and "getReferenceModelName Model attr = Some childModelName"
    and "childModelName \<noteq> []"
    and "registry_get (orm T) childModelName = Some (Registered ChildModel)"
    and "find_op T ex ''User'' parentId (or_default opts) w = (Inr (JObj kvs), w1)"
    and "get_prop (JObj kvs) attr = JArr ids"
    and "ex (Find ChildModel (extend_js (id_in (JArr ids)) (or_empty criteria)) None
               (query_limit T None)) (db w1) = (r, s2)"
  shows "findAssociation T ex parentModelName parentId attr criteria opts w
           = (r, \<lparr>db = s2,
                  calls = calls w1
                    @ [Find ChildModel (extend_js (id_in (JArr ids)) (or_empty criteria)) None
                         (query_limit T None)]\<rparr>)"
proof -
  have "getModel T childModelName = Some (Registered ChildModel)"
    using assms(5) by (simp add: getModel_def)
  then have "find_op T ex childModelName (extend_js (id_in (JArr ids)) (or_empty criteria))
        None w1
      = (r, \<lparr>db = s2,
             calls = calls w1
               @ [Find ChildModel (extend_js (id_in (JArr ids)) (or_empty criteria)) None
                    (query_limit T None)]\<rparr>)"
    using assms(8)
    by (simp add: find_op_def findOne_set_def exec_def isPlainObject_extend_js)
  then show ?thesis
    using assms(1-7)
    by (simp add: findAssociation_def then_p_def del: get_prop.simps)
qed

end
